(* ===== verification/Prelude.thy ===== *)
theory Prelude
  imports Complex_Main
begin

text \<open>
  Shared vocabulary of the development: Python's exceptions as values, Python strings
  as lists of Unicode code points, the error-propagating bind that sequences the
  statements of the script, Python's list indexing, the \<open>int()\<close> conversion of a
  float, the range validation python-pptx applies to XML attribute values, and
  \<open>str.split\<close> / \<open>str.join\<close> on a one-character separator with their round trips.
\<close>

named_theorems pptx_simps "characteristic equations of the modelled python-pptx operations"

subsection \<open>Exceptions and strings\<close>

text \<open>
  The exceptions the modelled code can raise: IndexError and ValueError from python-pptx,
  NameError for a read of an unbound module variable, OSError from writing a file and
  UnicodeEncodeError from writing to a console that cannot encode a character.
\<close>

datatype py_error = IndexError | ValueError | NameError | OSError | UnicodeEncodeError

text \<open>
  A Python \<open>str\<close> is a sequence of code points. Literals of the script are written as
  ASCII runs (\<open>py_str\<close>) joined to explicit code points for the non-ASCII characters.
\<close>

type_synonym pystr = "nat list"

definition py_str :: "string \<Rightarrow> pystr" where
  "py_str s = map of_char s"

definition bindE :: "py_error + 'a \<Rightarrow> ('a \<Rightarrow> py_error + 'b) \<Rightarrow> py_error + 'b" where
  "bindE m f = (case m of Inl e \<Rightarrow> Inl e | Inr x \<Rightarrow> f x)"

text \<open>Python list indexing \<open>xs[i]\<close>, answering the position it reads.\<close>

definition py_position :: "'a list \<Rightarrow> int \<Rightarrow> py_error + nat" where
  "py_position xs i =
     (let n = int (length xs); j = (if i < 0 then n + i else i)
      in if 0 \<le> j \<and> j < n then Inr (nat j) else Inl IndexError)"

definition py_index :: "'a list \<Rightarrow> int \<Rightarrow> py_error + 'a" where
  "py_index xs i = bindE (py_position xs i) (\<lambda>k. Inr (xs ! k))"

text \<open>\<open>int(x)\<close> of a Python float: truncation towards zero.\<close>

definition py_int :: "rat \<Rightarrow> int" where
  "py_int x = (if 0 \<le> x then floor x else - floor (- x))"

text \<open>\<open>BaseIntType.validate_int_in_range\<close> of python-pptx's XML layer.\<close>

definition validate_int_in_range :: "int \<Rightarrow> int \<Rightarrow> int \<Rightarrow> py_error + int" where
  "validate_int_in_range v lo hi = (if lo \<le> v \<and> v \<le> hi then Inr v else Inl ValueError)"

subsection \<open>\<open>str.split\<close> and \<open>str.join\<close> on one separator\<close>

fun split_on :: "'a \<Rightarrow> 'a list \<Rightarrow> 'a list list" where
  "split_on c [] = [[]]"
| "split_on c (x # xs) =
     (let r = split_on c xs in if x = c then [] # r else (x # hd r) # tl r)"

fun join_with :: "'a \<Rightarrow> 'a list list \<Rightarrow> 'a list" where
  "join_with c [] = []"
| "join_with c [xs] = xs"
| "join_with c (xs # ys # yss) = xs @ c # join_with c (ys # yss)"

subsection \<open>Lemmas\<close>

lemma bindE_Inl [simp]: "bindE (Inl e) f = Inl e"
  by (simp add: bindE_def)

lemma bindE_Inr [simp]: "bindE (Inr x) f = f x"
  by (simp add: bindE_def)

lemma bindE_assoc: "bindE (bindE m f) g = bindE m (\<lambda>x. bindE (f x) g)"
  by (cases m) simp_all

lemma bindE_eq_Inr: "bindE m f = Inr y \<longleftrightarrow> (\<exists>x. m = Inr x \<and> f x = Inr y)"
  by (cases m) simp_all

lemma bindE_eq_Inl: "bindE m f = Inl e \<longleftrightarrow> m = Inl e \<or> (\<exists>x. m = Inr x \<and> f x = Inl e)"
  by (cases m) simp_all

lemma py_str_Nil [simp]: "py_str [] = []"
  by (simp add: py_str_def)

lemma py_str_append [simp]: "py_str (s @ t) = py_str s @ py_str t"
  by (simp add: py_str_def)

lemma of_char_eq_newline: "(of_char c :: nat) = 10 \<longleftrightarrow> c = CHR ''\<newline>''"
proof -
  have "(10::nat) = of_char (CHR ''\<newline>'')" by simp
  then show ?thesis by (simp only: of_char_eq_iff)
qed

lemma of_char_eq_vtab: "(of_char c :: nat) = 11 \<longleftrightarrow> c = CHR 0x0B"
proof -
  have "(11::nat) = of_char (CHR 0x0B)" by simp
  then show ?thesis by (simp only: of_char_eq_iff)
qed

lemma newline_in_py_str [simp]: "(10::nat) \<in> set (py_str s) \<longleftrightarrow> CHR ''\<newline>'' \<in> set s"
  by (auto simp: py_str_def of_char_eq_newline)

lemma vtab_in_py_str [simp]: "(11::nat) \<in> set (py_str s) \<longleftrightarrow> CHR 0x0B \<in> set s"
  by (auto simp: py_str_def of_char_eq_vtab)

lemma py_position_nonneg:
  "0 \<le> i \<Longrightarrow> py_position xs i = (if nat i < length xs then Inr (nat i) else Inl IndexError)"
  by (auto simp: py_position_def Let_def)

lemma py_position_Inr: "py_position xs i = Inr k \<Longrightarrow> k < length xs"
  by (auto simp: py_position_def Let_def split: if_splits)

lemma py_int_of_int [simp]: "py_int (of_int n) = n"
  by (simp add: py_int_def)

lemma validate_int_in_range_Inr [simp]:
  "validate_int_in_range v lo hi = Inr w \<longleftrightarrow> lo \<le> v \<and> v \<le> hi \<and> w = v"
  by (auto simp: validate_int_in_range_def)

lemma validate_int_in_range_Inl [simp]:
  "validate_int_in_range v lo hi = Inl e \<longleftrightarrow> \<not> (lo \<le> v \<and> v \<le> hi) \<and> e = ValueError"
  by (auto simp: validate_int_in_range_def)

lemma split_on_not_Nil [simp]: "split_on c s \<noteq> []"
  by (induction s) (simp_all add: Let_def)

lemma split_on_segments_no_sep: "t \<in> set (split_on c s) \<Longrightarrow> c \<notin> set t"
proof (induction s arbitrary: t)
  case Nil
  then show ?case by simp
next
  case (Cons x xs)
  then show ?case
    by (cases "split_on c xs") (auto simp: Let_def split: if_splits)
qed

lemma split_on_no_sep: "c \<notin> set s \<Longrightarrow> split_on c s = [s]"
  by (induction s) (auto simp: Let_def)

lemma length_split_on: "length (split_on c s) = Suc (count_list s c)"
  by (induction s) (simp_all add: Let_def)

lemma join_with_Cons_hd:
  "xss \<noteq> [] \<Longrightarrow> join_with c ((x # hd xss) # tl xss) = x # join_with c xss"
  by (cases xss; cases "tl xss") auto

lemma join_split_on: "join_with c (split_on c s) = s"
proof (induction s)
  case Nil
  then show ?case by simp
next
  case (Cons x xs)
  show ?case
  proof (cases "x = c")
    case True
    then show ?thesis
      using Cons.IH by (cases "split_on c xs") simp_all
  next
    case False
    then have "join_with c (split_on c (x # xs)) = x # join_with c (split_on c xs)"
      by (simp add: Let_def join_with_Cons_hd)
    with Cons.IH show ?thesis by simp
  qed
qed

lemma split_on_append_sep:
  "c \<notin> set xs \<Longrightarrow> split_on c (xs @ c # ys) = xs # split_on c ys"
  by (induction xs) (auto simp: Let_def)

lemma split_on_join:
  "xss \<noteq> [] \<Longrightarrow> \<forall>xs\<in>set xss. c \<notin> set xs \<Longrightarrow> split_on c (join_with c xss) = xss"
proof (induction c xss rule: join_with.induct)
  case (2 c xs)
  then show ?case by (simp add: split_on_no_sep)
next
  case (3 c xs ys yss)
  then show ?case by (simp add: split_on_append_sep)
qed simp

lemma fold_max_ge_start: "(a::'a::linorder) \<le> fold max xs a"
proof (induction xs arbitrary: a)
  case Nil
  then show ?case by simp
next
  case (Cons y ys)
  have "max y a \<le> fold max ys (max y a)" by (rule Cons.IH)
  then show ?case by (simp add: le_max_iff_disj)
qed

lemma fold_max_ge_member: "x \<in> set xs \<Longrightarrow> (x::'a::linorder) \<le> fold max xs a"
proof (induction xs arbitrary: a)
  case Nil
  then show ?case by simp
next
  case (Cons y ys)
  then show ?case
    using fold_max_ge_start [of "max y a" ys] by (auto intro: order_trans [OF max.cobounded1])
qed

lemma map_update_hd: "xs \<noteq> [] \<Longrightarrow> (map f xs)[0 := x] = x # map f (tl xs)"
  by (cases xs) simp_all

lemma fold_max_max: "fold max xs (max a b) = max a (fold max xs (b::'a::linorder))"
proof (induction xs arbitrary: b)
  case Nil
  then show ?case by simp
next
  case (Cons x xs)
  have "max x (max a b) = max a (max x b)" by (simp add: max.left_commute)
  then show ?case by (simp add: Cons.IH)
qed

end
