(* ===== verification/Units.thy ===== *)
theory Units
  imports Prelude
begin

text \<open>
  The value types of python-pptx that the script constructs: lengths in English Metric
  Units (\<open>pptx.util.Length\<close>, \<open>Inches\<close>, \<open>Pt\<close> and the \<open>centipoints\<close> reading),
  \<open>pptx.dml.color.RGBColor\<close> with its range check, and the enumerations
  \<open>PP_ALIGN\<close> and \<open>MSO_AUTO_SIZE\<close>. Python floats in the script's literals are read as
  the rationals they denote; for every literal of the script the float product and the
  rational product truncate to the same integer.
\<close>

subsection \<open>Lengths\<close>

text \<open>A \<open>Length\<close> is an \<open>int\<close> subclass counting EMU.\<close>

type_synonym Length = int

definition Inches :: "rat \<Rightarrow> Length" where
  "Inches inches = py_int (inches * 914400)"

definition Pt :: "rat \<Rightarrow> Length" where
  "Pt points = py_int (points * 12700)"

definition centipoints :: "Length \<Rightarrow> int" where
  "centipoints emu = emu div 127"

subsection \<open>Colours\<close>

type_synonym rgb = "int \<times> int \<times> int"

text \<open>\<open>RGBColor.__new__\<close>: every component must be an int in 0..255, else ValueError.\<close>

definition RGBColor :: "int \<Rightarrow> int \<Rightarrow> int \<Rightarrow> py_error + rgb" where
  "RGBColor r g b =
     (if list_all (\<lambda>v. 0 \<le> v \<and> v \<le> 255) [r, g, b] then Inr (r, g, b) else Inl ValueError)"

subsection \<open>Enumerations\<close>

text \<open>The assignable members of \<open>PP_PARAGRAPH_ALIGNMENT\<close> (alias \<open>PP_ALIGN\<close>).\<close>

datatype pp_align = CENTER | DISTRIBUTE | JUSTIFY | JUSTIFY_LOW | LEFT | RIGHT | THAI_DISTRIBUTE

text \<open>\<open>MSO_AUTO_SIZE\<close>, the \<open>auto_size\<close> of a text frame.\<close>

datatype mso_auto_size = AUTO_SIZE_NONE | SHAPE_TO_FIT_TEXT | TEXT_TO_FIT_SHAPE

subsection \<open>Lemmas\<close>

lemma Inches_of_int: "Inches (of_int n) = 914400 * n"
proof -
  have "of_int n * 914400 = (of_int (914400 * n) :: rat)" by simp
  then show ?thesis by (simp only: Inches_def py_int_of_int)
qed

lemma Pt_of_int: "Pt (of_int n) = 12700 * n"
proof -
  have "of_int n * 12700 = (of_int (12700 * n) :: rat)" by simp
  then show ?thesis by (simp only: Pt_def py_int_of_int)
qed

lemma py_int_mono: "x \<le> y \<Longrightarrow> py_int x \<le> py_int y"
  by (auto simp: py_int_def floor_mono intro: order_trans [of _ 0])

lemma Inches_mono: "x \<le> y \<Longrightarrow> Inches x \<le> Inches y"
  by (simp add: Inches_def py_int_mono)

lemma Inches_nonneg: "0 \<le> x \<Longrightarrow> 0 \<le> Inches x"
  using Inches_mono [of 0 x] by (simp add: Inches_def py_int_def)

lemma RGBColor_Inr:
  "RGBColor r g b = Inr c \<longleftrightarrow>
     c = (r, g, b) \<and> 0 \<le> r \<and> r \<le> 255 \<and> 0 \<le> g \<and> g \<le> 255 \<and> 0 \<le> b \<and> b \<le> 255"
  by (auto simp: RGBColor_def)

lemma RGBColor_Inl:
  "RGBColor r g b = Inl e \<longleftrightarrow>
     e = ValueError \<and> \<not> (0 \<le> r \<and> r \<le> 255 \<and> 0 \<le> g \<and> g \<le> 255 \<and> 0 \<le> b \<and> b \<le> 255)"
  by (auto simp: RGBColor_def)

lemma Pt_numeral [simp]: "Pt (numeral k) = 12700 * numeral k"
  using Pt_of_int [of "numeral k"] by simp

lemma Inches_numeral [simp]: "Inches (numeral k) = 914400 * numeral k"
  using Inches_of_int [of "numeral k"] by simp

lemma Inches_one [simp]: "Inches 1 = 914400"
  using Inches_of_int [of 1] by simp

lemma centipoints_Pt: "centipoints (Pt (of_int n)) = 100 * n"
  by (simp add: Pt_of_int centipoints_def)

lemma centipoints_mult [simp]: "centipoints (12700 * n) = 100 * n"
  by (simp add: centipoints_def)

end
