(* ===== verification/Text.thy ===== *)
theory Text
  imports Units
begin

text \<open>
  The text layer of python-pptx that the script drives: a text frame
  (\<open>pptx.text.text.TextFrame\<close>, the \<open>p:txBody\<close> element) holds a list of paragraphs
  (\<open>_Paragraph\<close>, \<open>a:p\<close>); the paragraph's \<open>font\<close> is its default run properties
  (\<open>a:pPr/a:defRPr\<close>). Text is kept as the getter reads it back: runs concatenated, each
  line break \<open>a:br\<close> read as a vertical tab (code point 11). Sizes are stored as the
  XML stores them, in centipoints. Setters that validate their value return a
  \<open>py_error\<close>, as the XML attribute types raise ValueError; so do the two text setters,
  as lxml raises ValueError on run text that is not XML character data.

  The invariant \<open>wf_frame\<close> is the schema's: a \<open>p:txBody\<close> has at least one paragraph
  and every stored attribute lies in the range of its XML type; every operation keeps it.
\<close>

subsection \<open>State\<close>

record font =
  font_size :: "int option"
  font_bold :: "bool option"
  font_color :: "rgb option"

record text_paragraph =
  p_text :: pystr
  p_font :: font
  p_alignment :: "pp_align option"
  p_space_before :: "int option"
  p_level :: int

record text_frame =
  paragraphs :: "text_paragraph list"
  word_wrap :: "bool option"
  auto_size :: "mso_auto_size option"

definition new_font :: font where
  "new_font = \<lparr>font_size = None, font_bold = None, font_color = None\<rparr>"

text \<open>An empty \<open><a:p/>\<close>.\<close>

definition new_paragraph :: text_paragraph where
  "new_paragraph =
     \<lparr>p_text = [], p_font = new_font, p_alignment = None, p_space_before = None, p_level = 0\<rparr>"

text \<open>
  The body of a new text box (\<open>CT_Shape.new_textbox_sp\<close>):
  \<open><a:bodyPr wrap="none"><a:spAutoFit/></a:bodyPr><a:lstStyle/><a:p/>\<close>.
\<close>

definition new_textbox_frame :: text_frame where
  "new_textbox_frame =
     \<lparr>paragraphs = [new_paragraph], word_wrap = Some False, auto_size = Some SHAPE_TO_FIT_TEXT\<rparr>"

subsection \<open>Run text\<close>

text \<open>
  The \<open>Char\<close> production of XML 1.0, which lxml enforces on every string python-pptx
  stores as run text (\<open>ValueError\<close> otherwise).
\<close>

definition xml_char :: "nat \<Rightarrow> bool" where
  "xml_char c = (c = 0x9 \<or> c = 0xA \<or> c = 0xD \<or> (0x20 \<le> c \<and> c \<le> 0xD7FF) \<or>
     (0xE000 \<le> c \<and> c \<le> 0xFFFD) \<or> (0x10000 \<le> c \<and> c \<le> 0x10FFFF))"

text \<open>
  Text python-pptx can store in a run: \<open>CT_RegularTextRun.text\<close> escapes every other
  control character below U+0020 as \<open>_xHHHH_\<close>, and lxml accepts the rest only if it is
  an XML \<open>Char\<close>; a lone surrogate, U+FFFE or U+FFFF makes it raise ValueError.
\<close>

definition text_ok :: "pystr \<Rightarrow> bool" where
  "text_ok s = list_all (\<lambda>c. c < 0x20 \<or> xml_char c) s"

subsection \<open>Paragraph operations\<close>

text \<open>
  \<open>_Paragraph.text = s\<close>: removes the runs and breaks (the \<open>a:pPr\<close> stays) and appends
  \<open>s\<close>, each line feed or vertical tab becoming a line break; raises ValueError when lxml
  rejects the text.
\<close>

definition paragraph_set_text :: "pystr \<Rightarrow> text_paragraph \<Rightarrow> py_error + text_paragraph" where
  "paragraph_set_text s p =
     (if text_ok s then Inr (p\<lparr>p_text := map (\<lambda>c. if c = 10 then 11 else c) s\<rparr>) else Inl ValueError)"

text \<open>\<open>p.font.size = emu\<close>: stored as centipoints, \<open>ST_TextFontSize\<close> is 100..400000.\<close>

definition paragraph_set_font_size :: "Length \<Rightarrow> text_paragraph \<Rightarrow> py_error + text_paragraph" where
  "paragraph_set_font_size emu p =
     bindE (validate_int_in_range (centipoints emu) 100 400000)
       (\<lambda>sz. Inr (p\<lparr>p_font := (p_font p)\<lparr>font_size := Some sz\<rparr>\<rparr>))"

definition paragraph_set_bold :: "bool \<Rightarrow> text_paragraph \<Rightarrow> text_paragraph" where
  "paragraph_set_bold b p = p\<lparr>p_font := (p_font p)\<lparr>font_bold := Some b\<rparr>\<rparr>"

text \<open>\<open>p.font.color.rgb = c\<close>: a solid fill with an \<open>a:srgbClr\<close> of \<open>c\<close>.\<close>

definition paragraph_set_color :: "rgb \<Rightarrow> text_paragraph \<Rightarrow> text_paragraph" where
  "paragraph_set_color c p = p\<lparr>p_font := (p_font p)\<lparr>font_color := Some c\<rparr>\<rparr>"

definition paragraph_set_alignment :: "pp_align \<Rightarrow> text_paragraph \<Rightarrow> text_paragraph" where
  "paragraph_set_alignment a p = p\<lparr>p_alignment := Some a\<rparr>"

text \<open>
  \<open>p.space_before = emu\<close>: \<open>a:spcBef/a:spcPts\<close>; \<open>ST_TextSpacingPoint\<close> accepts
  0..20116800 EMU and stores centipoints.
\<close>

definition paragraph_set_space_before :: "Length \<Rightarrow> text_paragraph \<Rightarrow> py_error + text_paragraph" where
  "paragraph_set_space_before emu p =
     bindE (validate_int_in_range emu 0 20116800)
       (\<lambda>v. Inr (p\<lparr>p_space_before := Some (centipoints v)\<rparr>))"

text \<open>\<open>p.level = n\<close>: \<open>ST_TextIndentLevelType\<close> is 0..8.\<close>

definition paragraph_set_level :: "int \<Rightarrow> text_paragraph \<Rightarrow> py_error + text_paragraph" where
  "paragraph_set_level n p =
     bindE (validate_int_in_range n 0 8) (\<lambda>l. Inr (p\<lparr>p_level := l\<rparr>))"

subsection \<open>Frame operations\<close>

text \<open>
  \<open>TextFrame.text = s\<close>: removes every paragraph, then adds one new paragraph per
  line-feed-separated segment of \<open>s\<close> holding that segment (which has no line feed left);
  raises ValueError when lxml rejects the text.
\<close>

definition frame_set_text :: "pystr \<Rightarrow> text_frame \<Rightarrow> py_error + text_frame" where
  "frame_set_text s f =
     (if text_ok s then Inr (f\<lparr>paragraphs := map (\<lambda>t. new_paragraph\<lparr>p_text := t\<rparr>) (split_on 10 s)\<rparr>)
      else Inl ValueError)"

text \<open>The \<open>TextFrame.text\<close> getter: the paragraphs' texts joined by line feeds.\<close>

definition frame_text :: "text_frame \<Rightarrow> pystr" where
  "frame_text f = join_with 10 (map p_text (paragraphs f))"

text \<open>\<open>TextFrame.add_paragraph()\<close>: appends a new empty paragraph.\<close>

definition frame_add_paragraph :: "text_frame \<Rightarrow> text_frame" where
  "frame_add_paragraph f = f\<lparr>paragraphs := paragraphs f @ [new_paragraph]\<rparr>"

text \<open>\<open>TextFrame.word_wrap = b\<close>: \<open>wrap="square"\<close> for True, \<open>"none"\<close> for False.\<close>

definition frame_set_word_wrap :: "bool \<Rightarrow> text_frame \<Rightarrow> text_frame" where
  "frame_set_word_wrap b f = f\<lparr>word_wrap := Some b\<rparr>"

text \<open>Applying a paragraph operation to the paragraph at position \<open>k\<close> of a frame.\<close>

definition frame_update_paragraph ::
  "nat \<Rightarrow> (text_paragraph \<Rightarrow> py_error + text_paragraph) \<Rightarrow> text_frame \<Rightarrow> py_error + text_frame" where
  "frame_update_paragraph k g f =
     (if k < length (paragraphs f)
      then bindE (g (paragraphs f ! k)) (\<lambda>p. Inr (f\<lparr>paragraphs := (paragraphs f)[k := p]\<rparr>))
      else Inl IndexError)"

subsection \<open>Invariant\<close>

definition wf_paragraph :: "text_paragraph \<Rightarrow> bool" where
  "wf_paragraph p \<longleftrightarrow>
     pred_option (\<lambda>sz. 100 \<le> sz \<and> sz \<le> 400000) (font_size (p_font p)) \<and>
     pred_option (\<lambda>v. 0 \<le> v \<and> v \<le> 158400) (p_space_before p) \<and>
     0 \<le> p_level p \<and> p_level p \<le> 8 \<and>
     pred_option (\<lambda>(r, g, b). 0 \<le> r \<and> r \<le> 255 \<and> 0 \<le> g \<and> g \<le> 255 \<and> 0 \<le> b \<and> b \<le> 255)
       (font_color (p_font p))"

definition wf_frame :: "text_frame \<Rightarrow> bool" where
  "wf_frame f \<longleftrightarrow> paragraphs f \<noteq> [] \<and> list_all wf_paragraph (paragraphs f)"

subsection \<open>Lemmas\<close>

lemma text_ok_simps [simp]:
  "text_ok [] = True"
  "text_ok (c # s) = ((c < 0x20 \<or> xml_char c) \<and> text_ok s)"
  "text_ok (s @ s') = (text_ok s \<and> text_ok s')"
  by (simp_all add: text_ok_def)

lemma of_char_less_256: "(of_char c :: nat) < 256"
  by (metis of_char_mod_256 mod_less_divisor zero_less_numeral)

text \<open>Every ASCII string is valid run text.\<close>

lemma text_char_below_256: "n < 256 \<Longrightarrow> n < 0x20 \<or> xml_char (n::nat)"
  by (auto simp: xml_char_def)

lemma text_ok_py_str [simp]: "text_ok (py_str s)"
  using text_char_below_256 [OF of_char_less_256] by (simp add: text_ok_def py_str_def list_all_iff)

lemma paragraph_set_text_no_newline:
  "text_ok s \<Longrightarrow> 10 \<notin> set s \<Longrightarrow> paragraph_set_text s p = Inr (p\<lparr>p_text := s\<rparr>)"
proof -
  assume "text_ok s" and "10 \<notin> set s"
  moreover from \<open>10 \<notin> set s\<close> have "map (\<lambda>c. if c = 10 then 11 else c) s = s"
    by (induction s) auto
  ultimately show ?thesis by (simp add: paragraph_set_text_def)
qed

lemma paragraph_set_text_Inr:
  "paragraph_set_text s p = Inr p' \<longleftrightarrow> text_ok s \<and> p' = p\<lparr>p_text := map (\<lambda>c. if c = 10 then 11 else c) s\<rparr>"
  by (auto simp: paragraph_set_text_def)

lemma frame_set_text_ok [pptx_simps]:
  "text_ok s \<Longrightarrow>
     frame_set_text s f = Inr (f\<lparr>paragraphs := map (\<lambda>t. new_paragraph\<lparr>p_text := t\<rparr>) (split_on 10 s)\<rparr>)"
  by (simp add: frame_set_text_def)

lemma frame_set_text_Inl [pptx_simps]: "\<not> text_ok s \<Longrightarrow> frame_set_text s f = Inl ValueError"
  by (simp add: frame_set_text_def)

lemma frame_add_paragraph_paragraphs [pptx_simps]:
  "paragraphs (frame_add_paragraph f) = paragraphs f @ [new_paragraph]"
  "word_wrap (frame_add_paragraph f) = word_wrap f"
  "auto_size (frame_add_paragraph f) = auto_size f"
  by (simp_all add: frame_add_paragraph_def)

lemma frame_set_word_wrap_simps [pptx_simps]:
  "paragraphs (frame_set_word_wrap b f) = paragraphs f"
  "word_wrap (frame_set_word_wrap b f) = Some b"
  "auto_size (frame_set_word_wrap b f) = auto_size f"
  by (simp_all add: frame_set_word_wrap_def)

lemma frame_update_paragraph_Inr:
  "frame_update_paragraph k g f = Inr f' \<longleftrightarrow>
     k < length (paragraphs f) \<and>
     (\<exists>p. g (paragraphs f ! k) = Inr p \<and> f' = f\<lparr>paragraphs := (paragraphs f)[k := p]\<rparr>)"
  by (auto simp: frame_update_paragraph_def bindE_eq_Inr)

lemma frame_update_paragraph_ok [pptx_simps]:
  "k < length (paragraphs f) \<Longrightarrow> g (paragraphs f ! k) = Inr p \<Longrightarrow>
     frame_update_paragraph k g f = Inr (f\<lparr>paragraphs := (paragraphs f)[k := p]\<rparr>)"
  by (simp add: frame_update_paragraph_def)

lemma paragraph_set_font_size_Inr:
  "paragraph_set_font_size emu p = Inr p' \<longleftrightarrow>
     100 \<le> centipoints emu \<and> centipoints emu \<le> 400000 \<and>
     p' = p\<lparr>p_font := (p_font p)\<lparr>font_size := Some (centipoints emu)\<rparr>\<rparr>"
  by (auto simp: paragraph_set_font_size_def bindE_eq_Inr)

lemma paragraph_set_space_before_Inr:
  "paragraph_set_space_before emu p = Inr p' \<longleftrightarrow>
     0 \<le> emu \<and> emu \<le> 20116800 \<and> p' = p\<lparr>p_space_before := Some (centipoints emu)\<rparr>"
  by (auto simp: paragraph_set_space_before_def bindE_eq_Inr)

lemma paragraph_set_level_Inr:
  "paragraph_set_level n p = Inr p' \<longleftrightarrow> 0 \<le> n \<and> n \<le> 8 \<and> p' = p\<lparr>p_level := n\<rparr>"
  by (auto simp: paragraph_set_level_def bindE_eq_Inr)

subsubsection \<open>The invariant is kept\<close>

lemma wf_new_paragraph [simp]: "wf_paragraph (new_paragraph\<lparr>p_text := t\<rparr>)"
  by (simp add: wf_paragraph_def new_paragraph_def new_font_def)

lemma wf_new_paragraph' [simp]: "wf_paragraph new_paragraph"
  by (simp add: wf_paragraph_def new_paragraph_def new_font_def)

lemma wf_new_textbox_frame [simp]: "wf_frame new_textbox_frame"
  by (simp add: wf_frame_def new_textbox_frame_def)

lemma wf_frame_set_text: "frame_set_text s f = Inr f' \<Longrightarrow> wf_frame f'"
  by (auto simp: wf_frame_def frame_set_text_def list_all_iff split: if_splits)

lemma wf_frame_add_paragraph [simp]: "wf_frame f \<Longrightarrow> wf_frame (frame_add_paragraph f)"
  by (simp add: wf_frame_def frame_add_paragraph_def)

lemma wf_frame_set_word_wrap [simp]: "wf_frame (frame_set_word_wrap b f) = wf_frame f"
  by (simp add: wf_frame_def frame_set_word_wrap_def)

lemma wf_paragraph_set_text:
  "paragraph_set_text s p = Inr p' \<Longrightarrow> wf_paragraph p \<Longrightarrow> wf_paragraph p'"
  by (auto simp: wf_paragraph_def paragraph_set_text_Inr)

lemma wf_paragraph_set_bold [simp]: "wf_paragraph (paragraph_set_bold b p) = wf_paragraph p"
  by (simp add: wf_paragraph_def paragraph_set_bold_def)

lemma wf_paragraph_set_alignment [simp]:
  "wf_paragraph (paragraph_set_alignment a p) = wf_paragraph p"
  by (simp add: wf_paragraph_def paragraph_set_alignment_def)

lemma wf_paragraph_set_color:
  "RGBColor r g b = Inr c \<Longrightarrow> wf_paragraph p \<Longrightarrow> wf_paragraph (paragraph_set_color c p)"
  by (auto simp: wf_paragraph_def paragraph_set_color_def RGBColor_Inr)

lemma wf_paragraph_set_font_size:
  "paragraph_set_font_size emu p = Inr p' \<Longrightarrow> wf_paragraph p \<Longrightarrow> wf_paragraph p'"
  by (auto simp: wf_paragraph_def paragraph_set_font_size_Inr)

lemma wf_paragraph_set_space_before:
  "paragraph_set_space_before emu p = Inr p' \<Longrightarrow> wf_paragraph p \<Longrightarrow> wf_paragraph p'"
  by (auto simp: wf_paragraph_def paragraph_set_space_before_Inr centipoints_def)

lemma wf_paragraph_set_level:
  "paragraph_set_level n p = Inr p' \<Longrightarrow> wf_paragraph p \<Longrightarrow> wf_paragraph p'"
  by (auto simp: wf_paragraph_def paragraph_set_level_Inr)

lemma wf_frame_update_paragraph:
  assumes "frame_update_paragraph k g f = Inr f'" and "wf_frame f"
    and "\<And>p p'. g p = Inr p' \<Longrightarrow> wf_paragraph p \<Longrightarrow> wf_paragraph p'"
  shows "wf_frame f'"
proof -
  from assms(1) obtain p where k: "k < length (paragraphs f)"
    and g: "g (paragraphs f ! k) = Inr p" and f': "f' = f\<lparr>paragraphs := (paragraphs f)[k := p]\<rparr>"
    by (auto simp: frame_update_paragraph_Inr)
  from assms(2) k have "wf_paragraph (paragraphs f ! k)"
    by (simp add: wf_frame_def list_all_length)
  with g assms(3) have "wf_paragraph p" by blast
  with assms(2) k f' show ?thesis
    by (auto simp: wf_frame_def list_all_length nth_list_update)
qed

subsubsection \<open>Setters on values they accept\<close>

lemma paragraph_set_font_size_valid:
  "100 \<le> centipoints emu \<Longrightarrow> centipoints emu \<le> 400000 \<Longrightarrow>
     paragraph_set_font_size emu = (\<lambda>p. Inr (p\<lparr>p_font := (p_font p)\<lparr>font_size := Some (centipoints emu)\<rparr>\<rparr>))"
  by (simp add: fun_eq_iff paragraph_set_font_size_def validate_int_in_range_def)

lemma paragraph_set_space_before_valid:
  "0 \<le> emu \<Longrightarrow> emu \<le> 20116800 \<Longrightarrow>
     paragraph_set_space_before emu = (\<lambda>p. Inr (p\<lparr>p_space_before := Some (centipoints emu)\<rparr>))"
  by (simp add: fun_eq_iff paragraph_set_space_before_def validate_int_in_range_def)

lemma paragraph_set_text_valid:
  "text_ok s \<Longrightarrow> paragraph_set_text s = (\<lambda>p. Inr (p\<lparr>p_text := map (\<lambda>c. if c = 10 then 11 else c) s\<rparr>))"
  by (simp add: fun_eq_iff paragraph_set_text_def)

lemma paragraph_set_level_valid:
  "0 \<le> n \<Longrightarrow> n \<le> 8 \<Longrightarrow> paragraph_set_level n = (\<lambda>p. Inr (p\<lparr>p_level := n\<rparr>))"
  by (simp add: fun_eq_iff paragraph_set_level_def validate_int_in_range_def)

end
