(* ===== verification/Slides.thy ===== *)
theory Slides
  imports Text
begin

text \<open>
  The presentation object of python-pptx as the script uses it: \<open>Presentation()\<close> opened
  on the default template, the slide size (\<open>p:sldSz\<close>), the slide layouts, and the
  slides, each holding its shapes (\<open>p:spTree\<close>). Python object references (a slide, a
  shape, a paragraph) are positions in these lists, so an assignment through a
  reference is an update at that position of the presentation.

  Operations: \<open>prs.slide_width = \<dots>\<close> and \<open>prs.slide_height = \<dots>\<close> (validated),
  \<open>prs.slide_layouts[i]\<close> (Python indexing), \<open>prs.slides.add_slide(layout)\<close> (a new
  slide id, the layout's placeholders cloned), \<open>slide.shapes.add_textbox(\<dots>)\<close> (a new
  shape id and name), and the paragraph access \<open>text_frame.paragraphs[i]\<close>.
  The invariant \<open>wf_presentation\<close>: slide ids are distinct and at least 256, shape ids
  in each slide are distinct and at least 2 (id 1 is the shape tree's own), every text
  frame satisfies \<open>wf_frame\<close>.
\<close>

subsection \<open>State\<close>

datatype ph_type = PH_TITLE | PH_CENTER_TITLE | PH_SUBTITLE | PH_BODY | PH_OBJECT | PH_PICTURE

record ph_template =
  ph_kind :: ph_type
  ph_vert :: bool
  ph_idx :: nat

record slide_layout =
  layout_name :: pystr
  layout_placeholders :: "ph_template list"

datatype shape_kind = TextBoxShape | PlaceholderShape ph_template

record shape =
  shape_id :: nat
  shape_name :: pystr
  shape_kind :: shape_kind
  shape_xfrm :: "(Length \<times> Length \<times> Length \<times> Length) option"
  shape_frame :: text_frame

record slide =
  slide_id :: nat
  slide_layout_name :: pystr
  shapes :: "shape list"

record presentation =
  slide_width :: Length
  slide_height :: Length
  slide_layouts :: "slide_layout list"
  slides :: "slide list"

subsection \<open>Names\<close>

text \<open>\<open>"%d" % n\<close> for a natural number.\<close>

fun decimal :: "nat \<Rightarrow> pystr" where
  "decimal n = (if n < 10 then [48 + n] else decimal (n div 10) @ [48 + n mod 10])"

text \<open>\<open>SlideShapes._next_ph_name\<close>: the base name of the placeholder type, prefixed with
  \<open>Vertical\<close> for a vertical one, and the shape id less one.\<close>

definition ph_basename :: "ph_type \<Rightarrow> pystr" where
  "ph_basename t = (case t of
      PH_TITLE \<Rightarrow> py_str ''Title'' | PH_CENTER_TITLE \<Rightarrow> py_str ''Title''
    | PH_SUBTITLE \<Rightarrow> py_str ''Subtitle'' | PH_BODY \<Rightarrow> py_str ''Text Placeholder''
    | PH_OBJECT \<Rightarrow> py_str ''Content Placeholder'' | PH_PICTURE \<Rightarrow> py_str ''Picture Placeholder'')"

definition ph_name :: "ph_template \<Rightarrow> nat \<Rightarrow> pystr" where
  "ph_name p n =
     (if ph_vert p then py_str ''Vertical '' else []) @ ph_basename (ph_kind p)
       @ py_str '' '' @ decimal (n - 1)"

subsection \<open>The default template\<close>

definition layout_ph :: "ph_type \<Rightarrow> nat \<Rightarrow> ph_template" where
  "layout_ph t i = \<lparr>ph_kind = t, ph_vert = False, ph_idx = i\<rparr>"

text \<open>
  The eleven layouts of python-pptx's \<open>default.pptx\<close>, with the placeholders
  \<open>add_slide\<close> clones (date, footer and slide number are not cloned).
\<close>

definition default_layouts :: "slide_layout list" where
  "default_layouts = [
     \<lparr>layout_name = py_str ''Title Slide'',
      layout_placeholders = [layout_ph PH_CENTER_TITLE 0, layout_ph PH_SUBTITLE 1]\<rparr>,
     \<lparr>layout_name = py_str ''Title and Content'',
      layout_placeholders = [layout_ph PH_TITLE 0, layout_ph PH_OBJECT 1]\<rparr>,
     \<lparr>layout_name = py_str ''Section Header'',
      layout_placeholders = [layout_ph PH_TITLE 0, layout_ph PH_BODY 1]\<rparr>,
     \<lparr>layout_name = py_str ''Two Content'',
      layout_placeholders = [layout_ph PH_TITLE 0, layout_ph PH_OBJECT 1, layout_ph PH_OBJECT 2]\<rparr>,
     \<lparr>layout_name = py_str ''Comparison'',
      layout_placeholders = [layout_ph PH_TITLE 0, layout_ph PH_BODY 1, layout_ph PH_OBJECT 2, layout_ph PH_BODY 3, layout_ph PH_OBJECT 4]\<rparr>,
     \<lparr>layout_name = py_str ''Title Only'', layout_placeholders = [layout_ph PH_TITLE 0]\<rparr>,
     \<lparr>layout_name = py_str ''Blank'', layout_placeholders = []\<rparr>,
     \<lparr>layout_name = py_str ''Content with Caption'',
      layout_placeholders = [layout_ph PH_TITLE 0, layout_ph PH_OBJECT 1, layout_ph PH_BODY 2]\<rparr>,
     \<lparr>layout_name = py_str ''Picture with Caption'',
      layout_placeholders = [layout_ph PH_TITLE 0, layout_ph PH_PICTURE 1, layout_ph PH_BODY 2]\<rparr>,
     \<lparr>layout_name = py_str ''Title and Vertical Text'',
      layout_placeholders = [layout_ph PH_TITLE 0, (layout_ph PH_BODY 1)\<lparr>ph_vert := True\<rparr>]\<rparr>,
     \<lparr>layout_name = py_str ''Vertical Title and Text'',
      layout_placeholders = [(layout_ph PH_TITLE 0)\<lparr>ph_vert := True\<rparr>, (layout_ph PH_BODY 1)\<lparr>ph_vert := True\<rparr>]\<rparr>]"

text \<open>\<open>Presentation()\<close>: the default template, 4:3 at 10 by 7.5 inches, no slides.\<close>

definition Presentation :: presentation where
  "Presentation =
     \<lparr>slide_width = 9144000, slide_height = 6858000, slide_layouts = default_layouts, slides = []\<rparr>"

subsection \<open>Operations\<close>

text \<open>\<open>prs.slide_width = v\<close>: \<open>ST_SlideSizeCoordinate\<close> is 914400..51206400.\<close>

definition set_slide_width :: "Length \<Rightarrow> presentation \<Rightarrow> py_error + presentation" where
  "set_slide_width v prs =
     bindE (validate_int_in_range v 914400 51206400) (\<lambda>w. Inr (prs\<lparr>slide_width := w\<rparr>))"

definition set_slide_height :: "Length \<Rightarrow> presentation \<Rightarrow> py_error + presentation" where
  "set_slide_height v prs =
     bindE (validate_int_in_range v 914400 51206400) (\<lambda>h. Inr (prs\<lparr>slide_height := h\<rparr>))"

text \<open>\<open>prs.slide_layouts[i]\<close>.\<close>

definition get_slide_layout :: "presentation \<Rightarrow> int \<Rightarrow> py_error + slide_layout" where
  "get_slide_layout prs i = py_index (slide_layouts prs) i"

text \<open>\<open>SlideIdList._next_id\<close>: one more than the largest id in use, and 256 at first.\<close>

definition next_slide_id :: "slide list \<Rightarrow> nat" where
  "next_slide_id ss = fold max (map slide_id ss) 255 + 1"

text \<open>\<open>_BaseShapes._next_shape_id\<close>: one more than the largest id in the shape tree,
  whose own group-shape properties carry id 1.\<close>

definition next_shape_id :: "shape list \<Rightarrow> nat" where
  "next_shape_id shs = fold max (map shape_id shs) 1 + 1"

text \<open>\<open>SlideShapes.clone_layout_placeholders\<close>: one placeholder shape per cloneable
  layout placeholder, in order, each with the next id; the position is inherited.\<close>

fun clone_placeholders :: "ph_template list \<Rightarrow> shape list \<Rightarrow> shape list" where
  "clone_placeholders [] shs = shs"
| "clone_placeholders (p # ps) shs =
     (let n = next_shape_id shs in
      clone_placeholders ps (shs @ [\<lparr>shape_id = n, shape_name = ph_name p n,
        shape_kind = PlaceholderShape p, shape_xfrm = None,
        shape_frame = \<lparr>paragraphs = [new_paragraph], word_wrap = None, auto_size = None\<rparr>\<rparr>]))"

text \<open>\<open>prs.slides.add_slide(layout)\<close>, answering the new slide's position.\<close>

definition add_slide :: "slide_layout \<Rightarrow> presentation \<Rightarrow> presentation \<times> nat" where
  "add_slide layout prs =
     (prs\<lparr>slides := slides prs @ [\<lparr>slide_id = next_slide_id (slides prs),
        slide_layout_name = layout_name layout,
        shapes = clone_placeholders (layout_placeholders layout) []\<rparr>]\<rparr>,
      length (slides prs))"

text \<open>\<open>slide.shapes.add_textbox(left, top, width, height)\<close> on the slide at position
  \<open>s\<close>: a shape named \<open>TextBox n\<close> for id \<open>n + 1\<close>, placed by \<open>a:off x y\<close> and sized
  by \<open>a:ext cx cy\<close>, answering the shape's position.\<close>

definition new_textbox :: "nat \<Rightarrow> Length \<Rightarrow> Length \<Rightarrow> Length \<Rightarrow> Length \<Rightarrow> shape" where
  "new_textbox n x y cx cy =
     \<lparr>shape_id = n, shape_name = py_str ''TextBox '' @ decimal (n - 1),
      shape_kind = TextBoxShape, shape_xfrm = Some (x, y, cx, cy),
      shape_frame = new_textbox_frame\<rparr>"

definition add_textbox ::
  "nat \<Rightarrow> Length \<Rightarrow> Length \<Rightarrow> Length \<Rightarrow> Length \<Rightarrow> presentation \<Rightarrow> presentation \<times> nat" where
  "add_textbox s x y cx cy prs =
     (let sl = slides prs ! s;
          sh = new_textbox (next_shape_id (shapes sl)) x y cx cy
      in (prs\<lparr>slides := (slides prs)[s := sl\<lparr>shapes := shapes sl @ [sh]\<rparr>]\<rparr>, length (shapes sl)))"

text \<open>The text frame of shape \<open>sh\<close> on slide \<open>s\<close> (\<open>shape.text_frame\<close>).\<close>

definition frame_at :: "presentation \<Rightarrow> nat \<Rightarrow> nat \<Rightarrow> text_frame" where
  "frame_at prs s sh = shape_frame (shapes (slides prs ! s) ! sh)"

text \<open>An assignment through \<open>shape.text_frame\<close>.\<close>

definition map_frame ::
  "nat \<Rightarrow> nat \<Rightarrow> (text_frame \<Rightarrow> text_frame) \<Rightarrow> presentation \<Rightarrow> presentation" where
  "map_frame s sh g prs =
     (let sl = slides prs ! s; shp = shapes sl ! sh
      in prs\<lparr>slides := (slides prs)[s :=
           sl\<lparr>shapes := (shapes sl)[sh := shp\<lparr>shape_frame := g (shape_frame shp)\<rparr>]\<rparr>]\<rparr>)"

text \<open>\<open>text_frame.paragraphs[i]\<close>, answering the paragraph's position.\<close>

definition get_paragraph :: "nat \<Rightarrow> nat \<Rightarrow> int \<Rightarrow> presentation \<Rightarrow> py_error + nat" where
  "get_paragraph s sh i prs = py_position (paragraphs (frame_at prs s sh)) i"

text \<open>An assignment through \<open>shape.text_frame\<close> whose setter may raise.\<close>

definition frame_assign ::
  "nat \<Rightarrow> nat \<Rightarrow> (text_frame \<Rightarrow> py_error + text_frame) \<Rightarrow> presentation \<Rightarrow> py_error + presentation" where
  "frame_assign s sh g prs = bindE (g (frame_at prs s sh)) (\<lambda>f. Inr (map_frame s sh (\<lambda>_. f) prs))"

text \<open>An assignment through a paragraph reference that may raise.\<close>

definition par_update ::
  "nat \<Rightarrow> nat \<Rightarrow> nat \<Rightarrow> (text_paragraph \<Rightarrow> py_error + text_paragraph) \<Rightarrow> presentation
     \<Rightarrow> py_error + presentation" where
  "par_update s sh k g prs =
     bindE (frame_update_paragraph k g (frame_at prs s sh)) (\<lambda>f. Inr (map_frame s sh (\<lambda>_. f) prs))"

subsection \<open>Invariant\<close>

definition wf_slide :: "slide \<Rightarrow> bool" where
  "wf_slide sl \<longleftrightarrow>
     distinct (map shape_id (shapes sl)) \<and>
     list_all (\<lambda>shp. 2 \<le> shape_id shp \<and> wf_frame (shape_frame shp)) (shapes sl)"

definition wf_presentation :: "presentation \<Rightarrow> bool" where
  "wf_presentation prs \<longleftrightarrow>
     distinct (map slide_id (slides prs)) \<and> list_all (\<lambda>sl. 256 \<le> slide_id sl \<and> wf_slide sl) (slides prs)"

subsection \<open>Lemmas\<close>

subsubsection \<open>Fresh ids\<close>

lemma next_slide_id_fresh: "sl \<in> set ss \<Longrightarrow> slide_id sl < next_slide_id ss"
  using fold_max_ge_member [of "slide_id sl" "map slide_id ss" 255]
  by (simp add: next_slide_id_def)

lemma next_slide_id_ge: "256 \<le> next_slide_id ss"
  using fold_max_ge_start [of 255 "map slide_id ss"] by (simp add: next_slide_id_def)

lemma next_shape_id_fresh: "shp \<in> set shs \<Longrightarrow> shape_id shp < next_shape_id shs"
  using fold_max_ge_member [of "shape_id shp" "map shape_id shs" 1]
  by (simp add: next_shape_id_def)

lemma next_shape_id_ge: "2 \<le> next_shape_id shs"
  using fold_max_ge_start [of 1 "map shape_id shs"] by (simp add: next_shape_id_def)

lemma next_shape_id_Nil [simp]: "next_shape_id [] = 2"
  by (simp add: next_shape_id_def)

lemma next_slide_id_Nil [simp]: "next_slide_id [] = 256"
  by (simp add: next_slide_id_def)

lemma next_shape_id_snoc [simp]: "next_shape_id (shs @ [shp]) = max (next_shape_id shs) (Suc (shape_id shp))"
  by (simp add: next_shape_id_def max_def)

lemma next_shape_id_Cons: "next_shape_id (shp # shs) = max (Suc (shape_id shp)) (next_shape_id shs)"
proof -
  have "fold max (map shape_id shs) (max (shape_id shp) 1) = max (shape_id shp) (fold max (map shape_id shs) 1)"
    by (simp add: fold_max_max)
  then show ?thesis by (simp add: next_shape_id_def)
qed

lemma next_shape_id_append: "next_shape_id (xs @ ys) = max (next_shape_id xs) (next_shape_id ys)"
proof -
  let ?a = "fold max (map shape_id xs) 1"
  have "1 \<le> ?a" by (rule fold_max_ge_start)
  then have "fold max (map shape_id ys) ?a = fold max (map shape_id ys) (max ?a 1)"
    by (simp add: max_absorb1)
  also have "\<dots> = max ?a (fold max (map shape_id ys) 1)"
    by (rule fold_max_max)
  finally show ?thesis by (simp add: next_shape_id_def)
qed

lemma next_shape_id_snoc2 [simp]:
  "next_shape_id (shs @ [a, b]) = max (max (next_shape_id shs) (Suc (shape_id a))) (Suc (shape_id b))"
  using next_shape_id_ge [of shs] by (simp add: next_shape_id_append next_shape_id_Cons max_def)

lemma next_slide_id_snoc [simp]: "next_slide_id (ss @ [sl]) = max (next_slide_id ss) (Suc (slide_id sl))"
  by (simp add: next_slide_id_def max_def)

subsubsection \<open>Characteristic equations\<close>

lemma add_slide_simps [pptx_simps]:
  "slides (fst (add_slide layout prs)) = slides prs @ [\<lparr>slide_id = next_slide_id (slides prs),
     slide_layout_name = layout_name layout,
     shapes = clone_placeholders (layout_placeholders layout) []\<rparr>]"
  "snd (add_slide layout prs) = length (slides prs)"
  "slide_width (fst (add_slide layout prs)) = slide_width prs"
  "slide_height (fst (add_slide layout prs)) = slide_height prs"
  "slide_layouts (fst (add_slide layout prs)) = slide_layouts prs"
  by (simp_all add: add_slide_def)

lemma add_textbox_simps [pptx_simps]:
  "slides (fst (add_textbox s x y cx cy prs)) = (slides prs)[s := (slides prs ! s)\<lparr>shapes :=
     shapes (slides prs ! s) @ [new_textbox (next_shape_id (shapes (slides prs ! s))) x y cx cy]\<rparr>]"
  "snd (add_textbox s x y cx cy prs) = length (shapes (slides prs ! s))"
  "slide_width (fst (add_textbox s x y cx cy prs)) = slide_width prs"
  "slide_height (fst (add_textbox s x y cx cy prs)) = slide_height prs"
  "slide_layouts (fst (add_textbox s x y cx cy prs)) = slide_layouts prs"
  by (simp_all add: add_textbox_def Let_def)

lemma map_frame_simps [pptx_simps]:
  "slides (map_frame s sh g prs) = (slides prs)[s := (slides prs ! s)\<lparr>shapes :=
     (shapes (slides prs ! s))[sh := (shapes (slides prs ! s) ! sh)\<lparr>shape_frame :=
        g (frame_at prs s sh)\<rparr>]\<rparr>]"
  "slide_width (map_frame s sh g prs) = slide_width prs"
  "slide_height (map_frame s sh g prs) = slide_height prs"
  "slide_layouts (map_frame s sh g prs) = slide_layouts prs"
  by (simp_all add: map_frame_def frame_at_def Let_def)

lemma par_update_Inr:
  "par_update s sh k g prs = Inr prs' \<longleftrightarrow>
     (\<exists>f. frame_update_paragraph k g (frame_at prs s sh) = Inr f \<and> prs' = map_frame s sh (\<lambda>_. f) prs)"
  by (auto simp: par_update_def bindE_eq_Inr)

subsubsection \<open>The invariant is kept\<close>

lemma wf_Presentation: "wf_presentation Presentation"
  by (simp add: wf_presentation_def Presentation_def)

lemma wf_slide_snoc:
  "wf_slide (sl\<lparr>shapes := shapes sl @ [shp]\<rparr>) \<longleftrightarrow>
     wf_slide sl \<and> shape_id shp \<notin> set (map shape_id (shapes sl)) \<and> 2 \<le> shape_id shp \<and>
     wf_frame (shape_frame shp)"
  by (auto simp: wf_slide_def list_all_iff)

lemma wf_clone_placeholders:
  "wf_slide (sl\<lparr>shapes := shs\<rparr>) \<Longrightarrow> wf_slide (sl\<lparr>shapes := clone_placeholders ps shs\<rparr>)"
proof (induction ps arbitrary: shs)
  case Nil
  then show ?case by simp
next
  case (Cons p ps)
  let ?shp = "\<lparr>shape_id = next_shape_id shs, shape_name = ph_name p (next_shape_id shs),
        shape_kind = PlaceholderShape p, shape_xfrm = None,
        shape_frame = \<lparr>paragraphs = [new_paragraph], word_wrap = None, auto_size = None\<rparr>\<rparr>"
  have "wf_slide (sl\<lparr>shapes := shs @ [?shp]\<rparr>)"
    using Cons.prems wf_slide_snoc [of "sl\<lparr>shapes := shs\<rparr>" ?shp]
    by (auto simp: wf_frame_def dest: next_shape_id_fresh intro: next_shape_id_ge)
  then show ?case by (simp add: Cons.IH Let_def)
qed

lemma wf_add_slide: "wf_presentation prs \<Longrightarrow> wf_presentation (fst (add_slide layout prs))"
proof -
  let ?sl = "\<lparr>slide_id = next_slide_id (slides prs), slide_layout_name = layout_name layout,
     shapes = clone_placeholders (layout_placeholders layout) []\<rparr>"
  have "wf_slide (?sl\<lparr>shapes := []\<rparr>)" by (simp add: wf_slide_def list_all_iff)
  then have "wf_slide ?sl"
    using wf_clone_placeholders [where sl = ?sl and shs = "[]" and ps = "layout_placeholders layout"]
    by simp
  moreover assume "wf_presentation prs"
  ultimately show ?thesis
    by (auto simp: wf_presentation_def list_all_iff add_slide_simps next_slide_id_ge dest: next_slide_id_fresh)
qed

lemma wf_presentation_update_slide:
  assumes "wf_presentation prs" and "s < length (slides prs)"
    and "slide_id sl = slide_id (slides prs ! s)" and "wf_slide sl"
  shows "wf_presentation (prs\<lparr>slides := (slides prs)[s := sl]\<rparr>)"
proof -
  have "map slide_id ((slides prs)[s := sl]) = map slide_id (slides prs)"
    using assms(2,3) by (metis length_map list_update_id map_update nth_map)
  moreover have "\<forall>x\<in>set ((slides prs)[s := sl]). 256 \<le> slide_id x \<and> wf_slide x"
    using assms by (auto simp: wf_presentation_def list_all_iff dest!: set_update_subset_insert [THEN subsetD])
  ultimately show ?thesis
    using assms(1) by (simp add: wf_presentation_def list_all_iff)
qed

lemma wf_slide_at: "wf_presentation prs \<Longrightarrow> s < length (slides prs) \<Longrightarrow> wf_slide (slides prs ! s)"
  by (simp add: wf_presentation_def list_all_iff)

lemma wf_add_textbox:
  assumes "wf_presentation prs" and "s < length (slides prs)"
  shows "wf_presentation (fst (add_textbox s x y cx cy prs))"
proof -
  let ?sl = "slides prs ! s"
  let ?shp = "new_textbox (next_shape_id (shapes ?sl)) x y cx cy"
  have "wf_slide (?sl\<lparr>shapes := shapes ?sl @ [?shp]\<rparr>)"
    using wf_slide_at [OF assms] wf_slide_snoc [of ?sl ?shp]
    by (auto simp: new_textbox_def dest: next_shape_id_fresh intro: next_shape_id_ge)
  with assms show ?thesis
    by (simp add: add_textbox_def Let_def wf_presentation_update_slide)
qed

lemma wf_slide_update_frame:
  assumes "wf_slide sl" and "sh < length (shapes sl)" and "wf_frame f"
  shows "wf_slide (sl\<lparr>shapes := (shapes sl)[sh := (shapes sl ! sh)\<lparr>shape_frame := f\<rparr>]\<rparr>)"
proof -
  have "map shape_id ((shapes sl)[sh := (shapes sl ! sh)\<lparr>shape_frame := f\<rparr>]) = map shape_id (shapes sl)"
    using assms(2) by (metis list_update_id map_update shape.select_convs(1)
      shape.surjective shape.update_convs(5))
  moreover have "\<forall>x\<in>set ((shapes sl)[sh := (shapes sl ! sh)\<lparr>shape_frame := f\<rparr>]).
      2 \<le> shape_id x \<and> wf_frame (shape_frame x)"
    using assms by (auto simp: wf_slide_def list_all_iff dest!: set_update_subset_insert [THEN subsetD])
  ultimately show ?thesis
    using assms(1) by (simp add: wf_slide_def list_all_iff)
qed

lemma wf_map_frame:
  assumes "wf_presentation prs" and "s < length (slides prs)"
    and "sh < length (shapes (slides prs ! s))" and "wf_frame (g (frame_at prs s sh))"
  shows "wf_presentation (map_frame s sh g prs)"
proof -
  let ?sl = "slides prs ! s"
  have "wf_slide (?sl\<lparr>shapes := (shapes ?sl)[sh := (shapes ?sl ! sh)\<lparr>shape_frame := g (frame_at prs s sh)\<rparr>]\<rparr>)"
    using assms by (simp add: wf_slide_update_frame wf_slide_at)
  then show ?thesis
    using assms(1,2) by (simp add: map_frame_def frame_at_def Let_def wf_presentation_update_slide)
qed

lemma wf_par_update:
  assumes "par_update s sh k g prs = Inr prs'" and "wf_presentation prs"
    and "s < length (slides prs)" and "sh < length (shapes (slides prs ! s))"
    and "\<And>p p'. g p = Inr p' \<Longrightarrow> wf_paragraph p \<Longrightarrow> wf_paragraph p'"
  shows "wf_presentation prs'"
proof -
  from assms(1) obtain f where f: "frame_update_paragraph k g (frame_at prs s sh) = Inr f"
    and prs': "prs' = map_frame s sh (\<lambda>_. f) prs"
    by (auto simp: par_update_Inr)
  have "wf_frame (frame_at prs s sh)"
    using wf_slide_at [OF assms(2,3)] assms(4) by (simp add: wf_slide_def list_all_iff frame_at_def)
  then have "wf_frame f" by (rule wf_frame_update_paragraph [OF f _ assms(5)])
  with assms(2-4) prs' show ?thesis by (simp add: wf_map_frame)
qed

subsubsection \<open>Updates through references\<close>

lemma map_frame_eq:
  "map_frame s sh g prs = prs\<lparr>slides := (slides prs)[s := (slides prs ! s)\<lparr>shapes :=
     (shapes (slides prs ! s))[sh := (shapes (slides prs ! s) ! sh)\<lparr>shape_frame :=
        g (frame_at prs s sh)\<rparr>]\<rparr>]\<rparr>"
  by (simp add: map_frame_def frame_at_def Let_def)

lemma frame_at_map_frame [simp]:
  "s < length (slides prs) \<Longrightarrow> sh < length (shapes (slides prs ! s)) \<Longrightarrow>
     frame_at (map_frame s sh g prs) s sh = g (frame_at prs s sh)"
  by (simp add: map_frame_eq frame_at_def)

lemma length_slides_map_frame [simp]: "length (slides (map_frame s sh g prs)) = length (slides prs)"
  by (simp add: map_frame_eq)

lemma length_shapes_map_frame [simp]:
  "length (shapes (slides (map_frame s sh g prs) ! s')) = length (shapes (slides prs ! s'))"
  by (cases "s' < length (slides prs)"; cases "s = s'") (simp_all add: map_frame_eq nth_list_update list_update_beyond)

lemma map_frame_map_frame:
  "s < length (slides prs) \<Longrightarrow> sh < length (shapes (slides prs ! s)) \<Longrightarrow>
     map_frame s sh g (map_frame s sh h prs) = map_frame s sh (g \<circ> h) prs"
  by (simp add: map_frame_eq frame_at_def)

lemma par_update_ok:
  assumes "s < length (slides prs)" and "sh < length (shapes (slides prs ! s))"
    and "k < length (paragraphs (frame_at prs s sh))"
    and "g (paragraphs (frame_at prs s sh) ! k) = Inr p"
  shows "par_update s sh k g prs = Inr (map_frame s sh (\<lambda>f. f\<lparr>paragraphs := (paragraphs f)[k := p]\<rparr>) prs)"
  using assms by (simp add: par_update_def frame_update_paragraph_ok map_frame_eq)

lemma par_update_fun:
  assumes "s < length (slides prs)" and "sh < length (shapes (slides prs ! s))"
    and "k < length (paragraphs (frame_at prs s sh))"
  shows "par_update s sh k (\<lambda>q. Inr (h q)) prs =
           Inr (map_frame s sh (\<lambda>f. f\<lparr>paragraphs := (paragraphs f)[k := h (paragraphs f ! k)]\<rparr>) prs)"
  using assms by (simp add: par_update_ok map_frame_eq)

lemma map_frame_cong:
  "g (frame_at prs s sh) = h (frame_at prs s sh) \<Longrightarrow> map_frame s sh g prs = map_frame s sh h prs"
  by (simp add: map_frame_eq)

lemma new_textbox_simps [simp]:
  "shape_id (new_textbox n x y cx cy) = n"
  "shape_frame (new_textbox n x y cx cy) = new_textbox_frame"
  "shape_xfrm (new_textbox n x y cx cy) = Some (x, y, cx, cy)"
  "shape_kind (new_textbox n x y cx cy) = TextBoxShape"
  by (simp_all add: new_textbox_def)

lemma length_clone_placeholders [simp]:
  "length (clone_placeholders ps shs) = length shs + length ps"
  by (induction ps arbitrary: shs) (simp_all add: Let_def)

lemma frame_at_map_frame_other:
  "(s', sh') \<noteq> (s, sh) \<Longrightarrow> frame_at (map_frame s sh g prs) s' sh' = frame_at prs s' sh'"
  by (cases "s' = s"; cases "s < length (slides prs)")
    (auto simp: map_frame_eq frame_at_def nth_list_update list_update_beyond)

lemma get_slide_layout_Inl: "get_slide_layout prs i = Inl e \<Longrightarrow> e = IndexError"
  by (auto simp: get_slide_layout_def py_index_def py_position_def Let_def bindE_eq_Inl split: if_splits)

lemma get_slide_layout_short:
  "int (length (slide_layouts prs)) \<le> i \<Longrightarrow> get_slide_layout prs i = Inl IndexError"
  by (simp add: get_slide_layout_def py_index_def py_position_def Let_def)

lemma wf_presentation_snoc:
  "wf_presentation prs \<Longrightarrow> wf_slide sl \<Longrightarrow> slide_id sl = next_slide_id (slides prs) \<Longrightarrow>
     wf_presentation (prs\<lparr>slides := slides prs @ [sl]\<rparr>)"
  by (auto simp: wf_presentation_def list_all_iff next_slide_id_ge dest: next_slide_id_fresh)

lemma wf_slide_snoc_fresh:
  "wf_slide (sl\<lparr>shapes := shs\<rparr>) \<Longrightarrow> shape_id shp = next_shape_id shs \<Longrightarrow> wf_frame (shape_frame shp) \<Longrightarrow>
     wf_slide (sl\<lparr>shapes := shs @ [shp]\<rparr>)"
  using wf_slide_snoc [of "sl\<lparr>shapes := shs\<rparr>" shp]
  by (auto dest: next_shape_id_fresh intro: next_shape_id_ge)

lemma wf_slide_clone: "wf_slide (sl\<lparr>shapes := clone_placeholders ps []\<rparr>)"
  using wf_clone_placeholders [where sl = sl and shs = "[]" and ps = ps]
  by (simp add: wf_slide_def)

lemma Presentation_simps [simp]:
  "slides Presentation = []"
  "slide_layouts Presentation = default_layouts"
  "slide_width Presentation = 9144000"
  "slide_height Presentation = 6858000"
  by (simp_all add: Presentation_def)

lemma get_slide_layout_Presentation: "get_slide_layout Presentation 6 = Inr (default_layouts ! 6)"
  by (simp add: get_slide_layout_def py_index_def py_position_nonneg default_layouts_def)

end
