(* ===== verification/Builders.thy ===== *)
theory Builders
  imports Slides
begin

text \<open>
  The two slide builders of \<open>src/generate_ppt.py\<close>: \<open>add_title_slide\<close> (lines 11--30)
  and \<open>add_content_slide\<close> (lines 32--54) with its loop over the content items
  (lines 47--52). Each statement of the source is one step of the model, in the
  source's order; a statement that may raise is a \<open>bindE\<close>. Python returns the slide
  object; the model answers the presentation and the slide's position.

  The abstract specification of a builder is the slide it appends
  (\<open>title_slide_spec\<close>, \<open>content_slide_spec\<close>); the lemmas \<open>add_title_slide_eq\<close> and
  \<open>add_content_slide_eq\<close> show that on any presentation whose layout 6 exists, each
  builder raises ValueError when one of its strings is text lxml rejects, and otherwise
  raises nothing and appends exactly that slide.
\<close>

subsection \<open>The builders\<close>

definition add_title_slide ::
  "pystr \<Rightarrow> pystr \<Rightarrow> presentation \<Rightarrow> py_error + presentation \<times> nat" where
  "add_title_slide title subtitle prs =
     bindE (get_slide_layout prs 6) (\<lambda>layout.
     let (prs, slide) = add_slide layout prs;
         (prs, title_box) = add_textbox slide (Inches 1) (Inches 2.5) (Inches 8) (Inches 1) prs
     in bindE (frame_assign slide title_box (frame_set_text title) prs) (\<lambda>prs.
        bindE (get_paragraph slide title_box 0 prs) (\<lambda>title_p.
        bindE (par_update slide title_box title_p (paragraph_set_font_size (Pt 54)) prs) (\<lambda>prs.
        bindE (par_update slide title_box title_p (\<lambda>q. Inr (paragraph_set_bold True q)) prs) (\<lambda>prs.
        bindE (RGBColor 75 107 251) (\<lambda>color.
        bindE (par_update slide title_box title_p (\<lambda>q. Inr (paragraph_set_color color q)) prs) (\<lambda>prs.
        bindE (par_update slide title_box title_p (\<lambda>q. Inr (paragraph_set_alignment CENTER q)) prs) (\<lambda>prs.
        let (prs, subtitle_box) = add_textbox slide (Inches 1) (Inches 4) (Inches 8) (Inches 0.8) prs
        in bindE (frame_assign slide subtitle_box (frame_set_text subtitle) prs) (\<lambda>prs.
           bindE (get_paragraph slide subtitle_box 0 prs) (\<lambda>subtitle_p.
           bindE (par_update slide subtitle_box subtitle_p (paragraph_set_font_size (Pt 24)) prs) (\<lambda>prs.
           bindE (par_update slide subtitle_box subtitle_p
                    (\<lambda>q. Inr (paragraph_set_alignment CENTER q)) prs) (\<lambda>prs.
           Inr (prs, slide)))))))))))))"

text \<open>The loop of lines 47--52, over the remaining items, on the text box \<open>b\<close> of slide \<open>s\<close>.\<close>

fun add_content_items :: "nat \<Rightarrow> nat \<Rightarrow> pystr list \<Rightarrow> presentation \<Rightarrow> py_error + presentation" where
  "add_content_items s b [] prs = Inr prs"
| "add_content_items s b (item # items) prs =
     (let prs = map_frame s b frame_add_paragraph prs;
          p = length (paragraphs (frame_at prs s b)) - 1
      in bindE (par_update s b p (paragraph_set_text item) prs) (\<lambda>prs.
         bindE (par_update s b p (paragraph_set_font_size (Pt 18)) prs) (\<lambda>prs.
         bindE (par_update s b p (paragraph_set_space_before (Pt 12)) prs) (\<lambda>prs.
         bindE (par_update s b p (paragraph_set_level 0) prs) (\<lambda>prs.
         add_content_items s b items prs)))))"

definition add_content_slide ::
  "pystr \<Rightarrow> pystr list \<Rightarrow> presentation \<Rightarrow> py_error + presentation \<times> nat" where
  "add_content_slide title content_list prs =
     bindE (get_slide_layout prs 6) (\<lambda>layout.
     let (prs, slide) = add_slide layout prs;
         (prs, title_box) = add_textbox slide (Inches 0.5) (Inches 0.5) (Inches 9) (Inches 0.8) prs
     in bindE (frame_assign slide title_box (frame_set_text title) prs) (\<lambda>prs.
        bindE (get_paragraph slide title_box 0 prs) (\<lambda>title_p.
        bindE (par_update slide title_box title_p (paragraph_set_font_size (Pt 36)) prs) (\<lambda>prs.
        bindE (par_update slide title_box title_p (\<lambda>q. Inr (paragraph_set_bold True q)) prs) (\<lambda>prs.
        bindE (RGBColor 75 107 251) (\<lambda>color.
        bindE (par_update slide title_box title_p (\<lambda>q. Inr (paragraph_set_color color q)) prs) (\<lambda>prs.
        let (prs, content_box) = add_textbox slide (Inches 1) (Inches 1.8) (Inches 8) (Inches 5) prs;
            prs = map_frame slide content_box (frame_set_word_wrap True) prs
        in bindE (add_content_items slide content_box content_list prs) (\<lambda>prs.
           Inr (prs, slide)))))))))"

subsection \<open>Abstract specification\<close>

text \<open>
  A heading text box after \<open>frame.text = s\<close> and the formatting of
  \<open>frame.paragraphs[0]\<close>: one paragraph per line of \<open>s\<close>, only the first formatted.
\<close>

definition heading_paragraphs :: "text_paragraph \<Rightarrow> pystr \<Rightarrow> text_paragraph list" where
  "heading_paragraphs style s =
     (let segs = split_on 10 s
      in style\<lparr>p_text := hd segs\<rparr> # map (\<lambda>t. new_paragraph\<lparr>p_text := t\<rparr>) (tl segs))"

definition styled :: "int \<Rightarrow> bool option \<Rightarrow> rgb option \<Rightarrow> pp_align option \<Rightarrow> text_paragraph" where
  "styled sz b c a = new_paragraph\<lparr>p_font := \<lparr>font_size = Some sz, font_bold = b, font_color = c\<rparr>,
     p_alignment := a\<rparr>"

text \<open>A content item: 18 pt, 12 pt space before, level 0.\<close>

definition item_paragraph :: "pystr \<Rightarrow> text_paragraph" where
  "item_paragraph t = new_paragraph\<lparr>p_text := map (\<lambda>c. if c = 10 then 11 else c) t,
     p_font := new_font\<lparr>font_size := Some 1800\<rparr>, p_space_before := Some 1200\<rparr>"

definition text_box_spec :: "nat \<Rightarrow> Length \<times> Length \<times> Length \<times> Length \<Rightarrow> text_frame \<Rightarrow> shape" where
  "text_box_spec n g f = (case g of (x, y, cx, cy) \<Rightarrow> (new_textbox n x y cx cy)\<lparr>shape_frame := f\<rparr>)"

definition title_slide_spec :: "nat \<Rightarrow> slide_layout \<Rightarrow> pystr \<Rightarrow> pystr \<Rightarrow> slide" where
  "title_slide_spec sid layout title subtitle =
     (let base = clone_placeholders (layout_placeholders layout) []; n = next_shape_id base
      in \<lparr>slide_id = sid, slide_layout_name = layout_name layout, shapes = base @ [
           text_box_spec n (914400, 2286000, 7315200, 914400)
             (new_textbox_frame\<lparr>paragraphs := heading_paragraphs
                (styled 5400 (Some True) (Some (75, 107, 251)) (Some CENTER)) title\<rparr>),
           text_box_spec (Suc n) (914400, 3657600, 7315200, 731520)
             (new_textbox_frame\<lparr>paragraphs := heading_paragraphs
                (styled 2400 None None (Some CENTER)) subtitle\<rparr>)]\<rparr>)"

definition content_slide_spec :: "nat \<Rightarrow> slide_layout \<Rightarrow> pystr \<Rightarrow> pystr list \<Rightarrow> slide" where
  "content_slide_spec sid layout title items =
     (let base = clone_placeholders (layout_placeholders layout) []; n = next_shape_id base
      in \<lparr>slide_id = sid, slide_layout_name = layout_name layout, shapes = base @ [
           text_box_spec n (457200, 457200, 8229600, 731520)
             (new_textbox_frame\<lparr>paragraphs := heading_paragraphs
                (styled 3600 (Some True) (Some (75, 107, 251)) None) title\<rparr>),
           text_box_spec (Suc n) (914400, 1645920, 7315200, 4572000)
             (new_textbox_frame\<lparr>paragraphs := new_paragraph # map item_paragraph items,
                word_wrap := Some True\<rparr>)]\<rparr>)"

text \<open>A text box lies inside the slide: its offset and extent are non-negative and it ends
  within the slide's width and height.\<close>

definition inside_slide :: "presentation \<Rightarrow> shape \<Rightarrow> bool" where
  "inside_slide prs shp =
     (case shape_xfrm shp of
        None \<Rightarrow> True
      | Some (x, y, cx, cy) \<Rightarrow>
          0 \<le> x \<and> 0 \<le> y \<and> 0 \<le> cx \<and> 0 \<le> cy \<and> x + cx \<le> slide_width prs \<and> y + cy \<le> slide_height prs)"

subsection \<open>Refinement: the builders append their specified slide\<close>

text \<open>The rewrites that run a builder on a symbolic presentation, and those that unfold its
  specification.\<close>

lemmas builder_run_simps = Let_def get_paragraph_def add_slide_def add_textbox_def Inches_def
  py_int_def frame_at_def map_frame_eq py_position_nonneg frame_assign_def frame_set_text_ok par_update_fun
  paragraph_set_font_size_valid centipoints_def RGBColor_def nth_append list_update_append

lemmas builder_spec_simps = Let_def text_box_spec_def heading_paragraphs_def styled_def
  new_textbox_def new_textbox_frame_def map_update_hd hd_conv_nth [symmetric] nth_append
  list_update_append paragraph_set_color_def paragraph_set_bold_def paragraph_set_alignment_def
  new_paragraph_def new_font_def frame_set_text_def frame_set_word_wrap_def

lemma add_content_items_eq:
  assumes "s < length (slides prs)" and "b < length (shapes (slides prs ! s))"
  shows "add_content_items s b items prs =
           (if list_all text_ok items
            then Inr (map_frame s b (\<lambda>f. f\<lparr>paragraphs := paragraphs f @ map item_paragraph items\<rparr>) prs)
            else Inl ValueError)"
  using assms
proof (induction items arbitrary: prs)
  case Nil
  then show ?case by (simp add: map_frame_eq frame_at_def)
next
  case (Cons item items)
  show ?case
  proof (cases "text_ok item")
    case False
    with Cons.prems show ?thesis
      by (simp add: Let_def par_update_def frame_update_paragraph_def paragraph_set_text_def
        frame_add_paragraph_def)
  next
    case True
    show ?thesis
    proof (cases "list_all text_ok items")
      case False
      with True Cons show ?thesis
        by (simp add: Let_def par_update_fun map_frame_map_frame paragraph_set_font_size_valid
          paragraph_set_space_before_valid paragraph_set_level_valid paragraph_set_text_valid
          frame_add_paragraph_def centipoints_def)
    next
      case ok: True
      with True Cons show ?thesis
        by (simp add: Let_def par_update_fun map_frame_map_frame paragraph_set_font_size_valid
          paragraph_set_space_before_valid paragraph_set_level_valid paragraph_set_text_valid
          frame_add_paragraph_def item_paragraph_def o_def centipoints_def)
          (rule map_frame_cong, simp add: new_paragraph_def new_font_def)
    qed
  qed
qed

lemma add_content_slide_eq:
  assumes "get_slide_layout prs 6 = Inr layout"
  shows "add_content_slide title items prs =
           (if text_ok title \<and> list_all text_ok items
            then Inr (prs\<lparr>slides := slides prs @
                   [content_slide_spec (next_slide_id (slides prs)) layout title items]\<rparr>,
                 length (slides prs))
            else Inl ValueError)"
proof (cases "text_ok title")
  case False
  with assms show ?thesis by (simp add: add_content_slide_def builder_run_simps frame_set_text_Inl)
next
  case True
  show ?thesis
  proof (cases "list_all text_ok items")
    case False
    with True assms show ?thesis by (simp add: add_content_slide_def builder_run_simps add_content_items_eq)
  next
    case ok: True
    with True assms show ?thesis
      by (simp add: add_content_slide_def builder_run_simps add_content_items_eq)
        (simp add: content_slide_spec_def builder_spec_simps)
  qed
qed

lemma add_title_slide_eq:
  assumes "get_slide_layout prs 6 = Inr layout"
  shows "add_title_slide title subtitle prs =
           (if text_ok title \<and> text_ok subtitle
            then Inr (prs\<lparr>slides := slides prs @
                   [title_slide_spec (next_slide_id (slides prs)) layout title subtitle]\<rparr>,
                 length (slides prs))
            else Inl ValueError)"
proof (cases "text_ok title")
  case False
  with assms show ?thesis by (simp add: add_title_slide_def builder_run_simps frame_set_text_Inl)
next
  case True
  show ?thesis
  proof (cases "text_ok subtitle")
    case False
    with True assms show ?thesis by (simp add: add_title_slide_def builder_run_simps frame_set_text_Inl)
  next
    case ok: True
    with True assms show ?thesis
      by (simp add: add_title_slide_def builder_run_simps)
        (simp add: title_slide_spec_def builder_spec_simps)
  qed
qed

lemma add_content_slide_spec:
  "get_slide_layout prs 6 = Inr layout \<Longrightarrow> text_ok title \<Longrightarrow> list_all text_ok items \<Longrightarrow>
     add_content_slide title items prs =
       Inr (prs\<lparr>slides := slides prs @ [content_slide_spec (next_slide_id (slides prs)) layout title items]\<rparr>,
            length (slides prs))"
  by (simp add: add_content_slide_eq)

lemma add_title_slide_spec:
  "get_slide_layout prs 6 = Inr layout \<Longrightarrow> text_ok title \<Longrightarrow> text_ok subtitle \<Longrightarrow>
     add_title_slide title subtitle prs =
       Inr (prs\<lparr>slides := slides prs @ [title_slide_spec (next_slide_id (slides prs)) layout title subtitle]\<rparr>,
            length (slides prs))"
  by (simp add: add_title_slide_eq)

subsection \<open>Facts about the specified slides\<close>

lemma map_p_text_heading: "map p_text (heading_paragraphs style s) = split_on 10 s"
proof -
  have "split_on 10 s \<noteq> []" by simp
  then show ?thesis by (cases "split_on 10 s") (simp_all add: heading_paragraphs_def o_def)
qed

lemma frame_text_heading [simp]:
  "frame_text (f\<lparr>paragraphs := heading_paragraphs style s\<rparr>) = s"
  by (simp add: frame_text_def map_p_text_heading join_split_on)

lemma wf_frame_heading:
  "wf_paragraph style \<Longrightarrow> wf_frame (f\<lparr>paragraphs := heading_paragraphs style s\<rparr>)"
  by (simp add: wf_frame_def heading_paragraphs_def Let_def wf_paragraph_def list_all_iff
    new_paragraph_def new_font_def)

lemma wf_paragraph_styled:
  "100 \<le> sz \<Longrightarrow> sz \<le> 400000 \<Longrightarrow>
     pred_option (\<lambda>(r, g, b). 0 \<le> r \<and> r \<le> 255 \<and> 0 \<le> g \<and> g \<le> 255 \<and> 0 \<le> b \<and> b \<le> 255) c \<Longrightarrow>
     wf_paragraph (styled sz bold c a)"
  by (simp add: wf_paragraph_def styled_def new_paragraph_def)

lemma wf_item_paragraph [simp]: "wf_paragraph (item_paragraph t)"
  by (simp add: wf_paragraph_def item_paragraph_def paragraph_set_text_def new_paragraph_def new_font_def)

lemma wf_frame_items:
  "wf_frame (f\<lparr>paragraphs := new_paragraph # map item_paragraph items, word_wrap := w\<rparr>)"
  by (simp add: wf_frame_def list_all_iff)

lemma text_box_spec_simps [simp]:
  "shape_id (text_box_spec n g f) = n"
  "shape_frame (text_box_spec n g f) = f"
  "shape_xfrm (text_box_spec n g f) = Some g"
  "shape_kind (text_box_spec n g f) = TextBoxShape"
  by (cases g; simp add: text_box_spec_def)+

lemma wf_slide_two_boxes:
  assumes "wf_frame f1" and "wf_frame f2"
  shows "wf_slide (sl\<lparr>shapes := clone_placeholders ps [] @
           [text_box_spec (next_shape_id (clone_placeholders ps [])) g1 f1,
            text_box_spec (Suc (next_shape_id (clone_placeholders ps []))) g2 f2]\<rparr>)"
proof -
  let ?base = "clone_placeholders ps []"
  let ?b1 = "text_box_spec (next_shape_id ?base) g1 f1"
  have 1: "wf_slide (sl\<lparr>shapes := ?base @ [?b1]\<rparr>)"
    by (rule wf_slide_snoc_fresh [OF wf_slide_clone]) (simp_all add: assms)
  have "wf_slide (sl\<lparr>shapes := (?base @ [?b1]) @ [text_box_spec (Suc (next_shape_id ?base)) g2 f2]\<rparr>)"
    by (rule wf_slide_snoc_fresh [OF 1]) (simp_all add: assms)
  then show ?thesis by simp
qed

lemma wf_title_slide_spec: "wf_slide (title_slide_spec sid layout title subtitle)"
  unfolding title_slide_spec_def Let_def
  by (rule wf_slide_two_boxes [where sl = "\<lparr>slide_id = sid, slide_layout_name = layout_name layout,
      shapes = []\<rparr>", simplified]) (simp_all add: wf_frame_heading wf_paragraph_styled)

lemma wf_content_slide_spec: "wf_slide (content_slide_spec sid layout title items)"
  unfolding content_slide_spec_def Let_def
  by (rule wf_slide_two_boxes [where sl = "\<lparr>slide_id = sid, slide_layout_name = layout_name layout,
      shapes = []\<rparr>", simplified]) (simp_all add: wf_frame_heading wf_paragraph_styled wf_frame_items)

lemma slide_id_specs [simp]:
  "slide_id (title_slide_spec sid layout title subtitle) = sid"
  "slide_id (content_slide_spec sid layout title items) = sid"
  by (simp_all add: title_slide_spec_def content_slide_spec_def Let_def)

lemma heading_paragraphs_line_feed:
  assumes "10 \<in> set s"
  shows "2 \<le> length (heading_paragraphs style s) \<and> heading_paragraphs style s ! 0 = style\<lparr>p_text := hd (split_on 10 s)\<rparr> \<and>
    heading_paragraphs style s ! 1 = new_paragraph\<lparr>p_text := split_on 10 s ! 1\<rparr>"
proof -
  have "0 < count_list s 10" using assms by (metis count_list_0_iff gr0I)
  then have len: "2 \<le> length (split_on 10 s)" by (simp add: length_split_on)
  then obtain a b rest where "split_on 10 s = a # b # rest"
    by (cases "split_on 10 s" rule: remdups_adj.cases) auto
  then show ?thesis by (simp add: heading_paragraphs_def)
qed

subsection \<open>Properties of the builders\<close>

text \<open>
  C1. On a well-formed presentation whose slide layout 6 exists, \<open>add_content_slide\<close>
  with a title and items lxml accepts raises nothing, appends exactly the slide of
  \<open>content_slide_spec\<close> (a 36 pt bold blue title box and a word-wrapped content box
  holding the items at 18 pt), answers the new slide's position, and leaves the
  presentation well-formed.
\<close>

theorem add_content_slide_refines:
  assumes "wf_presentation prs" and "get_slide_layout prs 6 = Inr layout"
    and "text_ok title" and "list_all text_ok items"
  shows "add_content_slide title items prs =
           Inr (prs\<lparr>slides := slides prs @
                  [content_slide_spec (next_slide_id (slides prs)) layout title items]\<rparr>,
                length (slides prs)) \<and>
         wf_presentation (prs\<lparr>slides := slides prs @
           [content_slide_spec (next_slide_id (slides prs)) layout title items]\<rparr>)"
  using assms by (simp add: add_content_slide_spec wf_presentation_snoc wf_content_slide_spec)

theorem add_content_slide_refines_witness:
  "wf_presentation Presentation \<and> get_slide_layout Presentation 6 = Inr (default_layouts ! 6) \<and>
   text_ok (py_str ''Key Features'') \<and> list_all text_ok [py_str ''QR Code Generation''] \<and>
   add_content_slide (py_str ''Key Features'') [py_str ''QR Code Generation''] Presentation =
     Inr (Presentation\<lparr>slides := [content_slide_spec 256 (default_layouts ! 6)
            (py_str ''Key Features'') [py_str ''QR Code Generation'']]\<rparr>, 0)"
  using add_content_slide_refines [OF wf_Presentation get_slide_layout_Presentation,
      of "py_str ''Key Features''" "[py_str ''QR Code Generation'']"]
  by (simp add: wf_Presentation get_slide_layout_Presentation)

text \<open>
  C2. On a well-formed presentation whose slide layout 6 exists, \<open>add_title_slide\<close>
  with a title and subtitle lxml accepts raises nothing, appends exactly the slide of
  \<open>title_slide_spec\<close> (a centred 54 pt bold blue title box and a centred 24 pt subtitle
  box), answers its position, and leaves the presentation well-formed.
\<close>

theorem add_title_slide_refines:
  assumes "wf_presentation prs" and "get_slide_layout prs 6 = Inr layout"
    and "text_ok title" and "text_ok subtitle"
  shows "add_title_slide title subtitle prs =
           Inr (prs\<lparr>slides := slides prs @
                  [title_slide_spec (next_slide_id (slides prs)) layout title subtitle]\<rparr>,
                length (slides prs)) \<and>
         wf_presentation (prs\<lparr>slides := slides prs @
           [title_slide_spec (next_slide_id (slides prs)) layout title subtitle]\<rparr>)"
  using assms by (simp add: add_title_slide_spec wf_presentation_snoc wf_title_slide_spec)

theorem add_title_slide_refines_witness:
  "wf_presentation Presentation \<and> get_slide_layout Presentation 6 = Inr (default_layouts ! 6) \<and>
   text_ok (py_str ''EcoSystem'') \<and> text_ok (py_str ''Cross-Device'') \<and>
   add_title_slide (py_str ''EcoSystem'') (py_str ''Cross-Device'') Presentation =
     Inr (Presentation\<lparr>slides := [title_slide_spec 256 (default_layouts ! 6)
            (py_str ''EcoSystem'') (py_str ''Cross-Device'')]\<rparr>, 0)"
  using add_title_slide_refines [OF wf_Presentation get_slide_layout_Presentation,
      of "py_str ''EcoSystem''" "py_str ''Cross-Device''"]
  by (simp add: wf_Presentation get_slide_layout_Presentation)

text \<open>
  C3. The content box of a slide made by \<open>add_content_slide\<close> holds the empty paragraph
  the new text box starts with, followed by one paragraph per item: the loop's
  \<open>add_paragraph()\<close> appends after it instead of filling it, so every content slide opens
  with a blank line.
\<close>

theorem add_content_slide_leading_empty_paragraph:
  assumes "get_slide_layout prs 6 = Inr layout" and "add_content_slide title items prs = Inr (prs', s)"
  shows "paragraphs (shape_frame (last (shapes (slides prs' ! s)))) = new_paragraph # map item_paragraph items"
  using assms by (auto simp: add_content_slide_eq content_slide_spec_def Let_def split: if_splits)

theorem add_content_slide_leading_empty_paragraph_witness:
  "get_slide_layout Presentation 6 = Inr (default_layouts ! 6) \<and>
   add_content_slide (py_str ''Key Features'') [py_str ''QR''] Presentation =
     Inr (Presentation\<lparr>slides := [content_slide_spec 256 (default_layouts ! 6)
            (py_str ''Key Features'') [py_str ''QR'']]\<rparr>, 0) \<and>
   paragraphs (shape_frame (last (shapes (slides (Presentation\<lparr>slides :=
     [content_slide_spec 256 (default_layouts ! 6) (py_str ''Key Features'') [py_str ''QR'']]\<rparr>) ! 0)))) =
     [new_paragraph, item_paragraph (py_str ''QR'')]"
proof -
  have l: "get_slide_layout Presentation 6 = Inr (default_layouts ! 6)"
    by (rule get_slide_layout_Presentation)
  have r: "add_content_slide (py_str ''Key Features'') [py_str ''QR''] Presentation =
     Inr (Presentation\<lparr>slides := [content_slide_spec 256 (default_layouts ! 6)
            (py_str ''Key Features'') [py_str ''QR'']]\<rparr>, 0)"
    by (simp add: add_content_slide_eq [OF l])
  show ?thesis
    using add_content_slide_leading_empty_paragraph [OF l r] l r by simp
qed

text \<open>
  C4. The loop of lines 47--52 on the text box \<open>b\<close> of slide \<open>s\<close>, over items lxml
  accepts, raises nothing, appends exactly one formatted paragraph per item, in order, to
  that text box, and changes no other text frame.
\<close>

theorem add_content_items_loop:
  assumes "s < length (slides prs)" and "b < length (shapes (slides prs ! s))"
    and "list_all text_ok items"
  shows "\<exists>prs'. add_content_items s b items prs = Inr prs' \<and>
     paragraphs (frame_at prs' s b) = paragraphs (frame_at prs s b) @ map item_paragraph items \<and>
     (\<forall>s' b'. (s', b') \<noteq> (s, b) \<longrightarrow> frame_at prs' s' b' = frame_at prs s' b')"
  using assms by (simp add: add_content_items_eq frame_at_map_frame_other)

theorem add_content_items_loop_witness:
  "\<exists>prs'. add_content_items 0 0 [py_str ''a'', py_str ''b'']
       (Presentation\<lparr>slides := [title_slide_spec 256 (default_layouts ! 6) [] []]\<rparr>) = Inr prs' \<and>
     paragraphs (frame_at prs' 0 0) =
       paragraphs (frame_at (Presentation\<lparr>slides := [title_slide_spec 256 (default_layouts ! 6) [] []]\<rparr>) 0 0)
         @ map item_paragraph [py_str ''a'', py_str ''b''] \<and>
     (\<forall>s' b'. (s', b') \<noteq> (0, 0) \<longrightarrow>
        frame_at prs' s' b' = frame_at (Presentation\<lparr>slides := [title_slide_spec 256 (default_layouts ! 6) [] []]\<rparr>) s' b')"
  by (rule add_content_items_loop) (simp_all add: title_slide_spec_def Let_def default_layouts_def)

text \<open>
  C5. Once layout 6 exists, a builder raises ValueError exactly when one of its strings is
  text lxml rejects, and raises nothing otherwise: every size, spacing, level and colour
  component the source passes lies in the range python-pptx accepts.
\<close>

theorem builders_value_error:
  assumes "get_slide_layout prs 6 = Inr layout"
  shows "(add_title_slide title subtitle prs = Inl ValueError \<longleftrightarrow> \<not> (text_ok title \<and> text_ok subtitle)) \<and>
         (add_content_slide title items prs = Inl ValueError \<longleftrightarrow> \<not> (text_ok title \<and> list_all text_ok items)) \<and>
         (\<forall>e. e \<noteq> ValueError \<longrightarrow> add_title_slide title subtitle prs \<noteq> Inl e \<and> add_content_slide title items prs \<noteq> Inl e)"
  using assms by (simp add: add_title_slide_eq add_content_slide_eq)

theorem builders_value_error_witness:
  "get_slide_layout Presentation 6 = Inr (default_layouts ! 6) \<and>
   add_title_slide [0xD800] [] Presentation = Inl ValueError \<and>
   add_content_slide (py_str ''Key Features'') [[0xFFFE]] Presentation = Inl ValueError \<and>
   add_content_slide (py_str ''Key Features'') [py_str ''QR''] Presentation \<noteq> Inl ValueError"
proof -
  have l: "get_slide_layout Presentation 6 = Inr (default_layouts ! 6)"
    by (rule get_slide_layout_Presentation)
  have b: "\<not> text_ok [0xD800]" "\<not> text_ok [0xFFFE]" by (simp_all add: xml_char_def)
  show ?thesis
    using l b builders_value_error [OF l, of "[0xD800]" "[]" "[[0xFFFE]]"]
      builders_value_error [OF l, of "py_str ''Key Features''" "[]" "[[0xFFFE]]"]
      builders_value_error [OF l, of "py_str ''Key Features''" "[]" "[py_str ''QR'']"]
    by simp
qed

text \<open>
  C6. On a presentation with at most six slide layouts both builders raise IndexError at
  \<open>prs.slide_layouts[6]\<close>, before changing anything.
\<close>

theorem builders_missing_layout:
  assumes "int (length (slide_layouts prs)) \<le> 6"
  shows "add_title_slide title subtitle prs = Inl IndexError \<and> add_content_slide title items prs = Inl IndexError"
  using get_slide_layout_short [OF assms] by (simp add: add_title_slide_def add_content_slide_def)

theorem builders_missing_layout_witness:
  "int (length (slide_layouts (Presentation\<lparr>slide_layouts := take 6 default_layouts\<rparr>))) \<le> 6 \<and>
   add_title_slide (py_str ''EcoSystem'') [] (Presentation\<lparr>slide_layouts := take 6 default_layouts\<rparr>) = Inl IndexError \<and>
   add_content_slide (py_str ''EcoSystem'') [] (Presentation\<lparr>slide_layouts := take 6 default_layouts\<rparr>) = Inl IndexError"
proof -
  have h: "int (length (slide_layouts (Presentation\<lparr>slide_layouts := take 6 default_layouts\<rparr>))) \<le> 6"
    by (simp add: default_layouts_def)
  show ?thesis using h builders_missing_layout [OF h] by simp
qed



text \<open>
  C8. A title containing a line feed becomes several paragraphs of the title box, and
  only the first gets the 54 pt bold blue formatting: the source formats
  \<open>paragraphs[0]\<close> alone, so the following lines keep the default font.
\<close>

theorem title_line_feed_unformatted:
  assumes "get_slide_layout prs 6 = Inr layout" and "add_title_slide title subtitle prs = Inr (prs', s)"
    and "10 \<in> set title"
  shows "2 \<le> length (paragraphs (shape_frame (shapes (slides prs' ! s) ! length (layout_placeholders layout)))) \<and>
    font_size (p_font (paragraphs (shape_frame (shapes (slides prs' ! s) ! length (layout_placeholders layout))) ! 0)) = Some 5400 \<and>
    font_size (p_font (paragraphs (shape_frame (shapes (slides prs' ! s) ! length (layout_placeholders layout))) ! 1)) = None"
proof -
  from assms(1,2) have "slides prs' ! s = title_slide_spec (next_slide_id (slides prs)) layout title subtitle"
    by (auto simp: add_title_slide_eq split: if_splits)
  then show ?thesis
    using heading_paragraphs_line_feed [OF assms(3)]
    by (simp add: title_slide_spec_def Let_def nth_append styled_def new_paragraph_def new_font_def)
qed

theorem title_line_feed_unformatted_witness:
  "get_slide_layout Presentation 6 = Inr (default_layouts ! 6) \<and>
   add_title_slide (py_str ''Eco'' @ [10] @ py_str ''System'') [] Presentation =
     Inr (Presentation\<lparr>slides := [title_slide_spec 256 (default_layouts ! 6)
       (py_str ''Eco'' @ [10] @ py_str ''System'') []]\<rparr>, 0) \<and>
   (10::nat) \<in> set (py_str ''Eco'' @ [10] @ py_str ''System'') \<and>
   font_size (p_font (paragraphs (shape_frame (shapes (slides (Presentation\<lparr>slides :=
     [title_slide_spec 256 (default_layouts ! 6) (py_str ''Eco'' @ [10] @ py_str ''System'') []]\<rparr>) ! 0)
       ! length (layout_placeholders (default_layouts ! 6)))) ! 1)) = None"
proof -
  have l: "get_slide_layout Presentation 6 = Inr (default_layouts ! 6)"
    by (rule get_slide_layout_Presentation)
  have r: "add_title_slide (py_str ''Eco'' @ [10] @ py_str ''System'') [] Presentation =
     Inr (Presentation\<lparr>slides := [title_slide_spec 256 (default_layouts ! 6)
       (py_str ''Eco'' @ [10] @ py_str ''System'') []]\<rparr>, 0)"
    by (simp add: add_title_slide_eq [OF l])
  have n: "(10::nat) \<in> set (py_str ''Eco'' @ [10] @ py_str ''System'')" by simp
  show ?thesis using title_line_feed_unformatted [OF l r n] l r n by simp
qed

text \<open>
  C18. Bounds: on any presentation whose slides are at least 10 by 7.5 inches, every text
  box either builder adds lies inside the slide, whatever valid title, subtitle or items
  it is given.
\<close>

theorem builders_boxes_inside:
  assumes "get_slide_layout prs 6 = Inr layout"
    and "9144000 \<le> slide_width prs" and "6858000 \<le> slide_height prs"
    and "text_ok title" and "text_ok subtitle" and "list_all text_ok items"
  shows "\<exists>p1 p2. add_title_slide title subtitle prs = Inr (p1, length (slides prs)) \<and>
           add_content_slide title items prs = Inr (p2, length (slides prs)) \<and>
           list_all (inside_slide p1) (drop (length (layout_placeholders layout)) (shapes (last (slides p1)))) \<and>
           list_all (inside_slide p2) (drop (length (layout_placeholders layout)) (shapes (last (slides p2))))"
  using assms
  by (simp add: add_title_slide_spec add_content_slide_spec title_slide_spec_def content_slide_spec_def
    Let_def inside_slide_def)

theorem builders_boxes_inside_witness:
  "get_slide_layout Presentation 6 = Inr (default_layouts ! 6) \<and>
   9144000 \<le> slide_width Presentation \<and> 6858000 \<le> slide_height Presentation \<and>
   text_ok [] \<and> text_ok [] \<and> list_all text_ok [] \<and>
   (\<exists>p1 p2. add_title_slide [] [] Presentation = Inr (p1, length (slides Presentation)) \<and>
      add_content_slide [] [] Presentation = Inr (p2, length (slides Presentation)) \<and>
      list_all (inside_slide p1) (drop (length (layout_placeholders (default_layouts ! 6))) (shapes (last (slides p1)))) \<and>
      list_all (inside_slide p2) (drop (length (layout_placeholders (default_layouts ! 6))) (shapes (last (slides p2)))))"
proof -
  have w: "9144000 \<le> slide_width Presentation" and h: "6858000 \<le> slide_height Presentation"
    by (simp_all add: Presentation_def)
  show ?thesis using get_slide_layout_Presentation w h
    builders_boxes_inside [OF get_slide_layout_Presentation w h, of "[]" "[]" "[]"] by simp
qed

end
