(* ===== verification/Deck.thy ===== *)
theory Deck
  imports Builders "HOL-Library.Multiset"
begin

text \<open>
  The module-level script of \<open>src/generate_ppt.py\<close>: the presentation is created and
  sized (lines 7--9), fourteen builder calls add slides 1--14 (lines 56--225), and
  slide 15 is built inline (lines 228--251). The builder calls are a list of
  \<open>deck_call\<close> values run in order by \<open>run_calls\<close>, stopping at the first exception as
  the script would; their string arguments are the source's literals, written as ASCII
  runs joined to the code points of the emoji and symbols. Saving the file and printing
  the message (lines 253--255) are modelled in \<open>Script\<close>.
\<close>

subsection \<open>The script\<close>

datatype deck_call = TitleSlideCall pystr pystr | ContentSlideCall pystr "pystr list"

text \<open>Lines 7--9: \<open>prs = Presentation()\<close> and its size.\<close>

definition prs_init :: "py_error + presentation" where
  "prs_init = bindE (set_slide_width (Inches 10) Presentation) (set_slide_height (Inches 7.5))"

fun run_calls :: "deck_call list \<Rightarrow> presentation \<Rightarrow> py_error + presentation" where
  "run_calls [] prs = Inr prs"
| "run_calls (TitleSlideCall title subtitle # cs) prs =
     bindE (add_title_slide title subtitle prs) (\<lambda>(prs, _). run_calls cs prs)"
| "run_calls (ContentSlideCall title items # cs) prs =
     bindE (add_content_slide title items prs) (\<lambda>(prs, _). run_calls cs prs)"

subsection \<open>Slides 1--14: the builder calls\<close>

text \<open>Line 57.\<close>

definition title_call :: deck_call where
  "title_call = TitleSlideCall (py_str ''EcoSystem'') (py_str ''Cross-Device File Sharing Platform'')"

text \<open>Lines 60--66.\<close>

definition overview_call :: deck_call where
  "overview_call = ContentSlideCall (py_str ''Project Overview'') [
     ([0x1F310] @ py_str '' EcoSystem - Seamless cross-device file sharing solution''),
     ([0x1F4F1] @ py_str '' Share files between devices using simple 6-character codes''),
     ([0x2601, 0xFE0F] @ py_str '' Cloud-based storage powered by Cloudinary''),
     ([0x1F512] @ py_str '' Secure authentication with JWT tokens''),
     ([0x1F4CA] @ py_str '' Real-time storage tracking and management'')]"

text \<open>Lines 69--76.\<close>

definition features_call :: deck_call where
  "features_call = ContentSlideCall (py_str ''Key Features'') [
     ([0x1F4E4] @ py_str '' File Upload - Support for images, videos, documents (up to 500MB)''),
     ([0x1F511] @ py_str '' Access Codes - Generate unique 6-character codes for sharing''),
     ([0x1F4F1] @ py_str '' QR Code Generation - Scan to retrieve files instantly''),
     ([0x1F4AC] @ py_str '' Text Sharing - Share text content alongside files''),
     ([0x2B07, 0xFE0F] @ py_str '' Cross-Device Retrieval - Access files from any device''),
     ([0x1F4CA] @ py_str '' Storage Dashboard - Track usage with 25GB free storage'')]"

text \<open>Lines 79--91.\<close>

definition stack_call :: deck_call where
  "stack_call = ContentSlideCall (py_str ''Technology Stack'') [
     py_str ''Frontend:'',
     (py_str ''  '' @ [0x2022] @ py_str '' React.js - Modern UI framework''),
     (py_str ''  '' @ [0x2022] @ py_str '' Framer Motion - Smooth animations''),
     (py_str ''  '' @ [0x2022] @ py_str '' Axios - HTTP client''),
     (py_str ''  '' @ [0x2022] @ py_str '' QRCode.js - QR code generation''),
     [],
     py_str ''Backend:'',
     (py_str ''  '' @ [0x2022] @ py_str '' Node.js + Express.js - REST API''),
     (py_str ''  '' @ [0x2022] @ py_str '' JWT - Authentication''),
     (py_str ''  '' @ [0x2022] @ py_str '' Bcrypt - Password hashing''),
     (py_str ''  '' @ [0x2022] @ py_str '' Cloudinary - File storage & CDN'')]"

text \<open>Lines 94--105.\<close>

definition architecture_call :: deck_call where
  "architecture_call = ContentSlideCall (py_str ''System Architecture'') [
     (py_str ''Frontend (React) '' @ [0x2192] @ py_str '' Vercel Hosting''),
     (py_str ''  '' @ [0x2193]),
     (py_str ''Backend API (Express) '' @ [0x2192] @ py_str '' Render Hosting''),
     (py_str ''  '' @ [0x2193]),
     (py_str ''Cloudinary Storage '' @ [0x2192] @ py_str '' File CDN''),
     [],
     py_str ''Authentication Flow:'',
     (py_str ''  '' @ [0x2022] @ py_str '' User signup/login with JWT tokens''),
     (py_str ''  '' @ [0x2022] @ py_str '' Persistent user storage in JSON file''),
     (py_str ''  '' @ [0x2022] @ py_str '' Secure password hashing with bcrypt'')]"

text \<open>Lines 108--119.\<close>

definition how_it_works_call :: deck_call where
  "how_it_works_call = ContentSlideCall (py_str ''How It Works'') [
     (py_str ''1'' @ [0xFE0F, 0x20E3] @ py_str '' Upload Process:''),
     (py_str ''   '' @ [0x2022] @ py_str '' User selects files or enters text''),
     (py_str ''   '' @ [0x2022] @ py_str '' System generates unique 6-character code''),
     (py_str ''   '' @ [0x2022] @ py_str '' Files uploaded to Cloudinary with code tag''),
     (py_str ''   '' @ [0x2022] @ py_str '' QR code generated for easy sharing''),
     [],
     (py_str ''2'' @ [0xFE0F, 0x20E3] @ py_str '' Retrieval Process:''),
     (py_str ''   '' @ [0x2022] @ py_str '' User enters access code or scans QR''),
     (py_str ''   '' @ [0x2022] @ py_str '' System searches Cloudinary by code tag''),
     (py_str ''   '' @ [0x2022] @ py_str '' Files displayed with download options'')]"

text \<open>Lines 122--129.\<close>

definition ui_call :: deck_call where
  "ui_call = ContentSlideCall (py_str ''User Interface Highlights'') [
     ([0x1F3E0] @ py_str '' Home Page - Welcome screen with project intro''),
     ([0x1F4CA] @ py_str '' Dashboard - File management and storage tracking''),
     ([0x1F4E4] @ py_str '' Upload Modal - Drag-and-drop file selection''),
     ([0x1F50D] @ py_str '' Retrieve Modal - Code entry with validation''),
     ([0x1F4F1] @ py_str '' Mobile Responsive - Optimized for all devices''),
     ([0x1F3A8] @ py_str '' Modern Design - Clean, intuitive interface'')]"

text \<open>Lines 132--139.\<close>

definition security_call :: deck_call where
  "security_call = ContentSlideCall (py_str ''Security & Privacy'') [
     ([0x1F510] @ py_str '' JWT Authentication - Secure token-based auth''),
     ([0x1F512] @ py_str '' Password Hashing - Bcrypt encryption''),
     ([0x1F310] @ py_str '' CORS Protection - Controlled API access''),
     ([0x1F464] @ py_str '' User Isolation - Personal file management''),
     ([0x1F511] @ py_str '' Unique Access Codes - Random 6-char generation''),
     ([0x23F0] @ py_str '' Session Management - 24-hour token expiry'')]"

text \<open>Lines 142--155.\<close>

definition deployment_call :: deck_call where
  "deployment_call = ContentSlideCall (py_str ''Deployment Details'') [
     py_str ''Production URLs:'',
     (py_str ''  '' @ [0x2022] @ py_str '' Frontend: https://eco-stemm-ewx3.vercel.app''),
     (py_str ''  '' @ [0x2022] @ py_str '' Backend: https://ecosystem-file-share-1.onrender.com''),
     [],
     py_str ''Hosting Platforms:'',
     (py_str ''  '' @ [0x2022] @ py_str '' Vercel - Frontend deployment with auto-deploy''),
     (py_str ''  '' @ [0x2022] @ py_str '' Render - Backend API with persistent storage''),
     (py_str ''  '' @ [0x2022] @ py_str '' Cloudinary - 25GB free cloud storage''),
     [],
     py_str ''Environment:'',
     (py_str ''  '' @ [0x2022] @ py_str '' Node.js runtime''),
     (py_str ''  '' @ [0x2022] @ py_str '' Production-ready configuration'')]"

text \<open>Lines 158--168.\<close>

definition storage_call :: deck_call where
  "storage_call = ContentSlideCall (py_str ''Storage Management'') [
     ([0x1F4CA] @ py_str '' Real-time Usage Tracking''),
     (py_str ''  '' @ [0x2022] @ py_str '' Visual progress bar''),
     (py_str ''  '' @ [0x2022] @ py_str '' Used vs. Available display''),
     (py_str ''  '' @ [0x2022] @ py_str '' 25GB free storage limit''),
     [],
     ([0x1F5D1, 0xFE0F] @ py_str '' Developer Tools''),
     (py_str ''  '' @ [0x2022] @ py_str '' Clear all storage (dev@secureshare.com only)''),
     (py_str ''  '' @ [0x2022] @ py_str '' Storage analytics''),
     (py_str ''  '' @ [0x2022] @ py_str '' File management dashboard'')]"

text \<open>Lines 171--185.\<close>

definition accounts_call :: deck_call where
  "accounts_call = ContentSlideCall (py_str ''User Accounts'') [
     py_str ''Test Account:'',
     (py_str ''  '' @ [0x2022] @ py_str '' Email: test@test.com''),
     (py_str ''  '' @ [0x2022] @ py_str '' Password: test123''),
     [],
     py_str ''Developer Account:'',
     (py_str ''  '' @ [0x2022] @ py_str '' Email: dev@secureshare.com''),
     (py_str ''  '' @ [0x2022] @ py_str '' Password: dev123''),
     (py_str ''  '' @ [0x2022] @ py_str '' Additional privileges: Storage management''),
     [],
     py_str ''Features:'',
     (py_str ''  '' @ [0x2022] @ py_str '' Persistent user storage''),
     (py_str ''  '' @ [0x2022] @ py_str '' Secure authentication''),
     (py_str ''  '' @ [0x2022] @ py_str '' Personal file tracking'')]"

text \<open>Lines 188--197.\<close>

definition optimizations_call :: deck_call where
  "optimizations_call = ContentSlideCall (py_str ''Recent Optimizations'') [
     ([0x2705] @ py_str '' Fixed mobile keyboard input lag''),
     ([0x2705] @ py_str '' Optimized upload speed (500MB support)''),
     ([0x2705] @ py_str '' Improved download functionality''),
     ([0x2705] @ py_str '' Enhanced error handling''),
     ([0x2705] @ py_str '' Added upload progress tracking''),
     ([0x2705] @ py_str '' Mobile-responsive design''),
     ([0x2705] @ py_str '' QR code persistence management''),
     ([0x2705] @ py_str '' Cross-device file retrieval'')]"

text \<open>Lines 200--210.\<close>

definition roadmap_call :: deck_call where
  "roadmap_call = ContentSlideCall (py_str ''Future Roadmap'') [
     ([0x1F680] @ py_str '' Planned Features:''),
     (py_str ''  '' @ [0x2022] @ py_str '' File expiration settings''),
     (py_str ''  '' @ [0x2022] @ py_str '' Password-protected shares''),
     (py_str ''  '' @ [0x2022] @ py_str '' Bulk file operations''),
     (py_str ''  '' @ [0x2022] @ py_str '' File preview functionality''),
     (py_str ''  '' @ [0x2022] @ py_str '' Share history tracking''),
     (py_str ''  '' @ [0x2022] @ py_str '' Email notifications''),
     (py_str ''  '' @ [0x2022] @ py_str '' Advanced search filters''),
     (py_str ''  '' @ [0x2022] @ py_str '' Multi-language support'')]"

text \<open>Lines 213--225.\<close>

definition challenges_call :: deck_call where
  "challenges_call = ContentSlideCall (py_str ''Challenges Overcome'') [
     ([0x26A1] @ py_str '' Input Lag Issue:''),
     (py_str ''  '' @ [0x2022] @ py_str '' Problem: Mobile keyboard vanishing on input''),
     (py_str ''  '' @ [0x2022] @ py_str '' Solution: React.memo + ref-based state management''),
     [],
     ([0x1F4E4] @ py_str '' Upload Performance:''),
     (py_str ''  '' @ [0x2022] @ py_str '' Problem: Slow uploads for large files''),
     (py_str ''  '' @ [0x2022] @ py_str '' Solution: Chunked uploads + timeout handling''),
     [],
     ([0x2B07, 0xFE0F] @ py_str '' Download Errors:''),
     (py_str ''  '' @ [0x2022] @ py_str '' Problem: CORS issues with blob downloads''),
     (py_str ''  '' @ [0x2022] @ py_str '' Solution: Direct link downloads'')]"

definition deck_calls :: "deck_call list" where
  "deck_calls = [title_call, overview_call, features_call, stack_call, architecture_call,
     how_it_works_call, ui_call, security_call, deployment_call, storage_call, accounts_call,
     optimizations_call, roadmap_call, challenges_call]"

text \<open>Lines 228--251: slide 15, three centred text boxes.\<close>

definition thank_you_slide :: "presentation \<Rightarrow> py_error + presentation" where
  "thank_you_slide prs =
     bindE (get_slide_layout prs 6) (\<lambda>layout.
     let (prs, slide) = add_slide layout prs;
         (prs, title_box) = add_textbox slide (Inches 1) (Inches 2.5) (Inches 8) (Inches 1.5) prs
     in bindE (frame_assign slide title_box (frame_set_text (py_str ''Thank You!'')) prs) (\<lambda>prs.
        bindE (get_paragraph slide title_box 0 prs) (\<lambda>title_p.
        bindE (par_update slide title_box title_p (paragraph_set_font_size (Pt 54)) prs) (\<lambda>prs.
        bindE (par_update slide title_box title_p (\<lambda>q. Inr (paragraph_set_bold True q)) prs) (\<lambda>prs.
        bindE (RGBColor 75 107 251) (\<lambda>color.
        bindE (par_update slide title_box title_p (\<lambda>q. Inr (paragraph_set_color color q)) prs) (\<lambda>prs.
        bindE (par_update slide title_box title_p (\<lambda>q. Inr (paragraph_set_alignment CENTER q)) prs) (\<lambda>prs.
        let (prs, subtitle_box) = add_textbox slide (Inches 1) (Inches 4.5) (Inches 8) (Inches 1) prs
        in bindE (frame_assign slide subtitle_box
                    (frame_set_text (py_str ''EcoSystem - Share Files Seamlessly'')) prs) (\<lambda>prs.
           bindE (get_paragraph slide subtitle_box 0 prs) (\<lambda>subtitle_p.
           bindE (par_update slide subtitle_box subtitle_p (paragraph_set_font_size (Pt 24)) prs) (\<lambda>prs.
           bindE (par_update slide subtitle_box subtitle_p
                    (\<lambda>q. Inr (paragraph_set_alignment CENTER q)) prs) (\<lambda>prs.
           let (prs, contact_box) = add_textbox slide (Inches 1) (Inches 5.5) (Inches 8) (Inches 0.8) prs
           in bindE (frame_assign slide contact_box
                       (frame_set_text (py_str ''https://eco-stemm-ewx3.vercel.app'')) prs) (\<lambda>prs.
              bindE (get_paragraph slide contact_box 0 prs) (\<lambda>contact_p.
              bindE (par_update slide contact_box contact_p (paragraph_set_font_size (Pt 18)) prs) (\<lambda>prs.
              bindE (RGBColor 100 100 100) (\<lambda>grey.
              bindE (par_update slide contact_box contact_p
                       (\<lambda>q. Inr (paragraph_set_color grey q)) prs) (\<lambda>prs.
              bindE (par_update slide contact_box contact_p
                       (\<lambda>q. Inr (paragraph_set_alignment CENTER q)) prs) (\<lambda>prs.
              Inr prs))))))))))))))))))"

text \<open>The whole script up to \<open>prs.save\<close>.\<close>

definition generate_ppt :: "py_error + presentation" where
  "generate_ppt = bindE prs_init (\<lambda>prs. bindE (run_calls deck_calls prs) thank_you_slide)"

subsection \<open>Abstract specification\<close>

text \<open>A call whose strings are all text lxml accepts.\<close>

primrec call_text_ok :: "deck_call \<Rightarrow> bool" where
  "call_text_ok (TitleSlideCall title subtitle) = (text_ok title \<and> text_ok subtitle)"
| "call_text_ok (ContentSlideCall title items) = (text_ok title \<and> list_all text_ok items)"

primrec call_spec :: "nat \<Rightarrow> slide_layout \<Rightarrow> deck_call \<Rightarrow> slide" where
  "call_spec sid layout (TitleSlideCall title subtitle) = title_slide_spec sid layout title subtitle"
| "call_spec sid layout (ContentSlideCall title items) = content_slide_spec sid layout title items"

fun calls_spec :: "nat \<Rightarrow> slide_layout \<Rightarrow> deck_call list \<Rightarrow> slide list" where
  "calls_spec sid layout [] = []"
| "calls_spec sid layout (c # cs) = call_spec sid layout c # calls_spec (Suc sid) layout cs"

definition thank_you_spec :: "nat \<Rightarrow> slide_layout \<Rightarrow> slide" where
  "thank_you_spec sid layout =
     (let base = clone_placeholders (layout_placeholders layout) []; n = next_shape_id base
      in \<lparr>slide_id = sid, slide_layout_name = layout_name layout, shapes = base @ [
           text_box_spec n (914400, 2286000, 7315200, 1371600)
             (new_textbox_frame\<lparr>paragraphs := heading_paragraphs
                (styled 5400 (Some True) (Some (75, 107, 251)) (Some CENTER)) (py_str ''Thank You!'')\<rparr>),
           text_box_spec (Suc n) (914400, 4114800, 7315200, 914400)
             (new_textbox_frame\<lparr>paragraphs := heading_paragraphs
                (styled 2400 None None (Some CENTER)) (py_str ''EcoSystem - Share Files Seamlessly'')\<rparr>),
           text_box_spec (Suc (Suc n)) (914400, 5029200, 7315200, 731520)
             (new_textbox_frame\<lparr>paragraphs := heading_paragraphs
                (styled 1800 None (Some (100, 100, 100)) (Some CENTER))
                (py_str ''https://eco-stemm-ewx3.vercel.app'')\<rparr>)]\<rparr>)"

text \<open>The presentation the script builds, slide by slide.\<close>

definition final_deck :: presentation where
  "final_deck = Presentation\<lparr>slides :=
     calls_spec 256 (default_layouts ! 6) deck_calls @ [thank_you_spec 270 (default_layouts ! 6)]\<rparr>"

subsection \<open>The script builds the specified deck\<close>

lemma slide_id_call_spec [simp]: "slide_id (call_spec sid layout c) = sid"
  by (cases c) simp_all

lemma next_slide_id_calls_spec:
  "next_slide_id (ss @ calls_spec (next_slide_id ss) layout cs) = next_slide_id ss + length cs"
proof (induction cs arbitrary: ss)
  case Nil
  then show ?case by simp
next
  case (Cons c cs)
  have "next_slide_id (ss @ [call_spec (next_slide_id ss) layout c]) = Suc (next_slide_id ss)"
    by simp
  with Cons.IH [of "ss @ [call_spec (next_slide_id ss) layout c]"] show ?case by simp
qed

lemma get_slide_layout_slides [simp]:
  "get_slide_layout (prs\<lparr>slides := ss\<rparr>) i = get_slide_layout prs i"
  by (simp add: get_slide_layout_def)

lemma run_calls_eq:
  assumes "get_slide_layout prs 6 = Inr layout"
  shows "run_calls cs prs =
           (if list_all call_text_ok cs
            then Inr (prs\<lparr>slides := slides prs @ calls_spec (next_slide_id (slides prs)) layout cs\<rparr>)
            else Inl ValueError)"
  using assms
proof (induction cs arbitrary: prs)
  case Nil
  then show ?case by simp
next
  case (Cons c cs)
  show ?case
  proof (cases "call_text_ok c")
    case False
    with Cons.prems show ?thesis
      by (cases c) (auto simp: add_title_slide_eq add_content_slide_eq)
  next
    case True
    let ?prs = "prs\<lparr>slides := slides prs @ [call_spec (next_slide_id (slides prs)) layout c]\<rparr>"
    have step: "run_calls (c # cs) prs = run_calls cs ?prs"
      using Cons.prems True by (cases c) (simp_all add: add_title_slide_eq add_content_slide_eq)
    have "get_slide_layout ?prs 6 = Inr layout"
      using Cons.prems by simp
    with True show ?thesis by (simp add: step Cons.IH)
  qed
qed

lemma run_calls_spec:
  "get_slide_layout prs 6 = Inr layout \<Longrightarrow> list_all call_text_ok cs \<Longrightarrow>
     run_calls cs prs = Inr (prs\<lparr>slides := slides prs @ calls_spec (next_slide_id (slides prs)) layout cs\<rparr>)"
  by (simp add: run_calls_eq)

lemma thank_you_slide_spec:
  assumes "get_slide_layout prs 6 = Inr layout"
  shows "thank_you_slide prs =
           Inr (prs\<lparr>slides := slides prs @ [thank_you_spec (next_slide_id (slides prs)) layout]\<rparr>)"
  using assms
  by (simp add: thank_you_slide_def builder_run_simps)
    (simp add: thank_you_spec_def builder_spec_simps)

lemma prs_init_eq: "prs_init = Inr Presentation"
  by (simp add: prs_init_def set_slide_width_def set_slide_height_def Presentation_def Inches_def
    py_int_def validate_int_in_range_def)

lemmas deck_calls_unfold = deck_calls_def title_call_def overview_call_def features_call_def
  stack_call_def architecture_call_def how_it_works_call_def ui_call_def security_call_def
  deployment_call_def storage_call_def accounts_call_def optimizations_call_def roadmap_call_def
  challenges_call_def

text \<open>Every string the script passes, emoji included, is text lxml accepts.\<close>

lemma deck_calls_text_ok: "list_all call_text_ok deck_calls"
  by (simp add: deck_calls_unfold xml_char_def)

lemma run_calls_take:
  "run_calls (take k deck_calls) Presentation =
     Inr (Presentation\<lparr>slides := calls_spec 256 (default_layouts ! 6) (take k deck_calls)\<rparr>)"
proof -
  have "list_all call_text_ok (take k deck_calls)"
    using deck_calls_text_ok by (auto simp: list_all_iff dest: in_set_takeD)
  then show ?thesis using run_calls_spec [OF get_slide_layout_Presentation] by simp
qed

lemma thank_you_slide_deck:
  "thank_you_slide (Presentation\<lparr>slides := calls_spec 256 (default_layouts ! 6) deck_calls\<rparr>) = Inr final_deck"
proof -
  let ?prs = "Presentation\<lparr>slides := calls_spec 256 (default_layouts ! 6) deck_calls\<rparr>"
  have ids: "next_slide_id (slides ?prs) = 270"
    using next_slide_id_calls_spec [of "[]" "default_layouts ! 6" deck_calls]
    by (simp add: deck_calls_def)
  have "get_slide_layout ?prs 6 = Inr (default_layouts ! 6)"
    by (simp add: get_slide_layout_Presentation)
  from thank_you_slide_spec [OF this]
  have "thank_you_slide ?prs =
      Inr (?prs\<lparr>slides := slides ?prs @ [thank_you_spec 270 (default_layouts ! 6)]\<rparr>)"
    by (simp only: ids)
  then show ?thesis by (simp add: final_deck_def)
qed

lemma generate_ppt_eq: "generate_ppt = Inr final_deck"
  using run_calls_take [of "length deck_calls"]
  by (simp add: generate_ppt_def prs_init_eq thank_you_slide_deck)

subsection \<open>Well-formedness of the specified slides\<close>

lemma wf_call_spec: "wf_slide (call_spec sid layout c)"
  by (cases c) (simp_all add: wf_title_slide_spec wf_content_slide_spec)

lemma length_calls_spec [simp]: "length (calls_spec sid layout cs) = length cs"
  by (induction cs arbitrary: sid) simp_all

lemma wf_calls_spec:
  "wf_presentation prs \<Longrightarrow>
     wf_presentation (prs\<lparr>slides := slides prs @ calls_spec (next_slide_id (slides prs)) layout cs\<rparr>)"
proof (induction cs arbitrary: prs)
  case Nil
  then show ?case by simp
next
  case (Cons c cs)
  let ?prs = "prs\<lparr>slides := slides prs @ [call_spec (next_slide_id (slides prs)) layout c]\<rparr>"
  have "wf_presentation ?prs"
    using Cons.prems by (simp add: wf_presentation_snoc wf_call_spec)
  then have "wf_presentation (?prs\<lparr>slides := slides ?prs @ calls_spec (next_slide_id (slides ?prs)) layout cs\<rparr>)"
    by (rule Cons.IH)
  then show ?case by simp
qed

lemma slide_id_thank_you_spec [simp]: "slide_id (thank_you_spec sid layout) = sid"
  by (simp add: thank_you_spec_def Let_def)

lemma wf_thank_you_spec: "wf_slide (thank_you_spec sid layout)"
proof -
  let ?base = "clone_placeholders (layout_placeholders layout) []"
  let ?n = "next_shape_id ?base"
  let ?sl = "\<lparr>slide_id = sid, slide_layout_name = layout_name layout, shapes = []\<rparr>"
  let ?f1 = "new_textbox_frame\<lparr>paragraphs := heading_paragraphs
                (styled 5400 (Some True) (Some (75, 107, 251)) (Some CENTER)) (py_str ''Thank You!'')\<rparr>"
  let ?f2 = "new_textbox_frame\<lparr>paragraphs := heading_paragraphs
                (styled 2400 None None (Some CENTER)) (py_str ''EcoSystem - Share Files Seamlessly'')\<rparr>"
  let ?f3 = "new_textbox_frame\<lparr>paragraphs := heading_paragraphs
                (styled 1800 None (Some (100, 100, 100)) (Some CENTER))
                (py_str ''https://eco-stemm-ewx3.vercel.app'')\<rparr>"
  let ?b1 = "text_box_spec ?n (914400, 2286000, 7315200, 1371600) ?f1"
  let ?b2 = "text_box_spec (Suc ?n) (914400, 4114800, 7315200, 914400) ?f2"
  let ?b3 = "text_box_spec (Suc (Suc ?n)) (914400, 5029200, 7315200, 731520) ?f3"
  have w: "wf_frame ?f1" "wf_frame ?f2" "wf_frame ?f3"
    by (simp_all add: wf_frame_heading wf_paragraph_styled)
  have 1: "wf_slide (?sl\<lparr>shapes := ?base @ [?b1]\<rparr>)"
    by (rule wf_slide_snoc_fresh [OF wf_slide_clone]) (simp_all add: w)
  have 2: "wf_slide (?sl\<lparr>shapes := (?base @ [?b1]) @ [?b2]\<rparr>)"
    by (rule wf_slide_snoc_fresh [OF 1]) (simp_all add: w)
  have "wf_slide (?sl\<lparr>shapes := ((?base @ [?b1]) @ [?b2]) @ [?b3]\<rparr>)"
    by (rule wf_slide_snoc_fresh [OF 2]) (simp_all add: w)
  then show ?thesis by (simp add: thank_you_spec_def Let_def)
qed

lemma wf_final_deck: "wf_presentation final_deck"
proof -
  have "wf_presentation (Presentation\<lparr>slides := slides Presentation @
      calls_spec (next_slide_id (slides Presentation)) (default_layouts ! 6) deck_calls\<rparr>)"
    by (rule wf_calls_spec [OF wf_Presentation])
  then have w: "wf_presentation (Presentation\<lparr>slides := calls_spec 256 (default_layouts ! 6) deck_calls\<rparr>)"
    by simp
  have "next_slide_id (calls_spec 256 (default_layouts ! 6) deck_calls) = 270"
    using next_slide_id_calls_spec [of "[]" "default_layouts ! 6" deck_calls]
    by (simp add: deck_calls_def)
  with w show ?thesis
    using wf_presentation_snoc [OF w wf_thank_you_spec] by (simp add: final_deck_def)
qed

lemma call_spec_reset_id: "(call_spec sid layout c)\<lparr>slide_id := 0\<rparr> = call_spec 0 layout c"
  by (cases c) (simp_all add: title_slide_spec_def content_slide_spec_def Let_def)

lemma calls_spec_reset_ids:
  "map (\<lambda>sl. sl\<lparr>slide_id := 0\<rparr>) (calls_spec sid layout cs) = map (call_spec 0 layout) cs"
  by (induction sid layout cs rule: calls_spec.induct) (simp_all add: call_spec_reset_id)

lemma calls_spec_ids: "map slide_id (calls_spec sid layout cs) = [sid..<sid + length cs]"
  by (induction sid layout cs rule: calls_spec.induct) (simp_all add: upt_rec)

subsection \<open>Properties of the script's parts\<close>

text \<open>
  C9. Running builder calls whose strings lxml accepts, in order, on a well-formed
  presentation whose layout 6 exists raises nothing, appends the specified slide of each
  call in the calls' order, numbering them with consecutive slide ids, and keeps the
  presentation well-formed.
\<close>

theorem run_calls_refines:
  assumes "wf_presentation prs" and "get_slide_layout prs 6 = Inr layout"
    and "list_all call_text_ok cs"
  shows "\<exists>prs'. run_calls cs prs = Inr prs' \<and>
           slides prs' = slides prs @ calls_spec (next_slide_id (slides prs)) layout cs \<and>
           wf_presentation prs'"
  using run_calls_spec [OF assms(2,3)] wf_calls_spec [OF assms(1)] by simp

theorem run_calls_refines_witness:
  "list_all call_text_ok [title_call, overview_call] \<and>
   (\<exists>prs'. run_calls [title_call, overview_call] Presentation = Inr prs' \<and>
     slides prs' = slides Presentation @ calls_spec (next_slide_id (slides Presentation)) (default_layouts ! 6)
       [title_call, overview_call] \<and> wf_presentation prs')"
proof -
  have t: "list_all call_text_ok [title_call, overview_call]"
    by (simp add: title_call_def overview_call_def xml_char_def)
  show ?thesis using t run_calls_refines [OF wf_Presentation get_slide_layout_Presentation t] by blast
qed

text \<open>
  C10. The inline code of slide 15 (lines 228--251) raises nothing on a well-formed
  presentation whose layout 6 exists, appends the slide of \<open>thank_you_spec\<close> (a centred
  54 pt bold blue \<open>Thank You!\<close>, a 24 pt subtitle and an 18 pt grey link) and keeps the
  presentation well-formed.
\<close>

theorem thank_you_slide_refines:
  assumes "wf_presentation prs" and "get_slide_layout prs 6 = Inr layout"
  shows "\<exists>prs'. thank_you_slide prs = Inr prs' \<and>
           slides prs' = slides prs @ [thank_you_spec (next_slide_id (slides prs)) layout] \<and>
           wf_presentation prs'"
  using thank_you_slide_spec [OF assms(2)] assms(1)
  by (simp add: wf_presentation_snoc wf_thank_you_spec)

theorem thank_you_slide_refines_witness:
  "\<exists>prs'. thank_you_slide Presentation = Inr prs' \<and>
     slides prs' = slides Presentation @ [thank_you_spec (next_slide_id (slides Presentation)) (default_layouts ! 6)] \<and>
     wf_presentation prs'"
  by (rule thank_you_slide_refines [OF wf_Presentation get_slide_layout_Presentation])

text \<open>
  C11. On a presentation with at most six slide layouts the first builder call and the
  code of slide 15 both raise IndexError at \<open>prs.slide_layouts[6]\<close>.
\<close>

theorem script_parts_missing_layout:
  assumes "int (length (slide_layouts prs)) \<le> 6"
  shows "run_calls (c # cs) prs = Inl IndexError \<and> thank_you_slide prs = Inl IndexError"
  using get_slide_layout_short [OF assms]
  by (cases c) (simp_all add: add_title_slide_def add_content_slide_def thank_you_slide_def)

theorem script_parts_missing_layout_witness:
  "int (length (slide_layouts (Presentation\<lparr>slide_layouts := take 6 default_layouts\<rparr>))) \<le> 6 \<and>
   run_calls deck_calls (Presentation\<lparr>slide_layouts := take 6 default_layouts\<rparr>) = Inl IndexError \<and>
   thank_you_slide (Presentation\<lparr>slide_layouts := take 6 default_layouts\<rparr>) = Inl IndexError"
proof -
  have h: "int (length (slide_layouts (Presentation\<lparr>slide_layouts := take 6 default_layouts\<rparr>))) \<le> 6"
    by (simp add: default_layouts_def)
  show ?thesis using h script_parts_missing_layout [OF h, of title_call] by (simp add: deck_calls_def)
qed

text \<open>
  C12. The exceptions a sequence of builder calls can raise: IndexError, when the
  presentation has at most six layouts, or ValueError, when some call passes a string lxml
  rejects.
\<close>

theorem run_calls_errors:
  assumes "run_calls cs prs = Inl e"
  shows "(e = IndexError \<and> int (length (slide_layouts prs)) \<le> 6) \<or>
         (e = ValueError \<and> \<not> list_all call_text_ok cs)"
proof (cases "get_slide_layout prs 6")
  case (Inl e')
  then have short: "int (length (slide_layouts prs)) \<le> 6"
    by (auto simp: get_slide_layout_def py_index_def py_position_def Let_def bindE_eq_Inl split: if_splits)
  from Inl have "e' = IndexError" by (rule get_slide_layout_Inl)
  with Inl assms short show ?thesis
    by (cases cs rule: list.exhaust) (auto simp: add_title_slide_def add_content_slide_def
      elim: run_calls.elims)
next
  case (Inr layout)
  with assms show ?thesis by (simp add: run_calls_eq split: if_splits)
qed

theorem run_calls_errors_witness:
  "run_calls [TitleSlideCall [0xD800] []] Presentation = Inl ValueError \<and>
   ((ValueError = IndexError \<and> int (length (slide_layouts Presentation)) \<le> 6) \<or>
    (ValueError = ValueError \<and> \<not> list_all call_text_ok [TitleSlideCall [0xD800] []]))"
proof -
  have r: "run_calls [TitleSlideCall [0xD800] []] Presentation = Inl ValueError"
    by (simp add: run_calls_eq [OF get_slide_layout_Presentation] xml_char_def)
  show ?thesis using r run_calls_errors [OF r] by simp
qed

text \<open>
  C17. Reordering the builder calls only reorders the slides: run on a presentation whose
  layout 6 exists, a permutation of calls whose strings lxml accepts leaves the existing
  slides alone, numbers the new ones with the same ids in the same order, and yields the
  same slides up to their ids.
\<close>

theorem run_calls_reorder:
  assumes "get_slide_layout prs 6 = Inr layout" and "mset cs' = mset cs"
    and "list_all call_text_ok cs"
  shows "\<exists>p p'. run_calls cs prs = Inr p \<and> run_calls cs' prs = Inr p' \<and>
           take (length (slides prs)) (slides p') = take (length (slides prs)) (slides p) \<and>
           map slide_id (slides p') = map slide_id (slides p) \<and>
           mset (map (\<lambda>sl. sl\<lparr>slide_id := 0\<rparr>) (slides p')) = mset (map (\<lambda>sl. sl\<lparr>slide_id := 0\<rparr>) (slides p))"
proof -
  let ?sid = "next_slide_id (slides prs)"
  let ?p = "prs\<lparr>slides := slides prs @ calls_spec ?sid layout cs\<rparr>"
  let ?p' = "prs\<lparr>slides := slides prs @ calls_spec ?sid layout cs'\<rparr>"
  have "set cs' = set cs" using assms(2) by (metis set_mset_mset)
  then have "list_all call_text_ok cs'" using assms(3) by (simp add: list_all_iff)
  then have r: "run_calls cs prs = Inr ?p" "run_calls cs' prs = Inr ?p'"
    using run_calls_spec [OF assms(1)] assms(3) by simp_all
  have "length cs' = length cs" using assms(2) by (rule mset_eq_length)
  then have ids: "map slide_id (slides ?p') = map slide_id (slides ?p)" by (simp add: calls_spec_ids)
  have "mset (map (\<lambda>sl. sl\<lparr>slide_id := 0\<rparr>) (calls_spec ?sid layout cs')) =
      mset (map (\<lambda>sl. sl\<lparr>slide_id := 0\<rparr>) (calls_spec ?sid layout cs))"
    unfolding calls_spec_reset_ids using assms(2) by simp
  then have ms: "mset (map (\<lambda>sl. sl\<lparr>slide_id := 0\<rparr>) (slides ?p')) = mset (map (\<lambda>sl. sl\<lparr>slide_id := 0\<rparr>) (slides ?p))"
    by simp
  show ?thesis using r ids ms by simp
qed

theorem run_calls_reorder_witness:
  "get_slide_layout Presentation 6 = Inr (default_layouts ! 6) \<and>
   mset [overview_call, title_call] = mset [title_call, overview_call] \<and>
   list_all call_text_ok [title_call, overview_call] \<and>
   (\<exists>p p'. run_calls [title_call, overview_call] Presentation = Inr p \<and>
      run_calls [overview_call, title_call] Presentation = Inr p' \<and>
      take (length (slides Presentation)) (slides p') = take (length (slides Presentation)) (slides p) \<and>
      map slide_id (slides p') = map slide_id (slides p) \<and>
      mset (map (\<lambda>sl. sl\<lparr>slide_id := 0\<rparr>) (slides p')) = mset (map (\<lambda>sl. sl\<lparr>slide_id := 0\<rparr>) (slides p)))"
proof -
  have m: "mset [overview_call, title_call] = mset [title_call, overview_call]"
    by (simp add: add_mset_commute)
  have t: "list_all call_text_ok [title_call, overview_call]"
    by (simp add: title_call_def overview_call_def xml_char_def)
  show ?thesis
    using get_slide_layout_Presentation m t run_calls_reorder [OF get_slide_layout_Presentation m t] by blast
qed

end
