(* ===== verification/Script.thy ===== *)
theory Script
  imports Deck
begin

text \<open>
  The module \<open>src/generate_ppt.py\<close> run as a Python program: its top-level statements
  in order (the presentation set-up of lines 7--9, the fourteen builder calls, the code
  of slide 15, \<open>prs.save\<close> at line 254 and \<open>print\<close> at line 255) executed one at a time
  on the module's observable state: the global \<open>prs\<close>, the file system and the text
  written to standard output. An uncaught exception ends the program. Two effects depend
  on the environment: writing the file may fail with OSError, and \<open>print\<close> raises
  UnicodeEncodeError when the console's encoding cannot represent a character of the
  message. The step relation \<open>script_step\<close> is the small-step semantics, \<open>exec_script\<close>
  the big-step one for the runs in which every write succeeds.
\<close>

subsection \<open>Statements and state\<close>

text \<open>
  The top-level statements of the module. The two \<open>def\<close> statements only bind the
  builders, which \<open>CallStmt\<close> calls; the comments and imports do nothing.
\<close>

datatype stmt = InitStmt | CallStmt deck_call | ThankYouStmt | SaveStmt pystr | PrintStmt pystr

text \<open>What a path of the file system holds: a saved deck, or the remains of a failed write.\<close>

datatype file_content = PptxFile presentation | PartialFile

record script_state =
  prs_var :: "presentation option"
  files :: "pystr \<rightharpoonup> file_content"
  stdout :: pystr

text \<open>A configuration: the statements still to run, or the exception that ended the program.\<close>

datatype script_cfg = Run "stmt list" script_state | Crashed py_error script_state

definition output_path :: pystr where
  "output_path = py_str ''EcoSystem_Presentation.pptx''"

definition done_msg :: pystr where
  "done_msg = [0x2705] @ py_str '' PowerPoint presentation created: EcoSystem_Presentation.pptx''"

text \<open>The module body, lines 6--255.\<close>

definition script :: "stmt list" where
  "script = InitStmt # map CallStmt deck_calls @
     [ThankYouStmt, SaveStmt output_path, PrintStmt done_msg]"

definition script_start :: "(pystr \<rightharpoonup> file_content) \<Rightarrow> script_state" where
  "script_start fs = \<lparr>prs_var = None, files = fs, stdout = []\<rparr>"

text \<open>A statement that updates the global \<open>prs\<close>; reading it unbound raises NameError.\<close>

definition with_prs ::
  "script_state \<Rightarrow> (presentation \<Rightarrow> py_error + presentation) \<Rightarrow> py_error + script_state" where
  "with_prs st f = (case prs_var st of
     None \<Rightarrow> Inl NameError
   | Some prs \<Rightarrow> bindE (f prs) (\<lambda>prs. Inr (st\<lparr>prs_var := Some prs\<rparr>)))"

text \<open>
  One statement, when every write succeeds. \<open>enc\<close> tells which code points the console's
  encoding can represent: \<open>print\<close> encodes the whole message before writing anything, and
  then writes it followed by a line feed.
\<close>

fun exec_stmt :: "(nat \<Rightarrow> bool) \<Rightarrow> stmt \<Rightarrow> script_state \<Rightarrow> py_error + script_state" where
  "exec_stmt enc InitStmt st = bindE prs_init (\<lambda>prs. Inr (st\<lparr>prs_var := Some prs\<rparr>))"
| "exec_stmt enc (CallStmt c) st = with_prs st (run_calls [c])"
| "exec_stmt enc ThankYouStmt st = with_prs st thank_you_slide"
| "exec_stmt enc (SaveStmt path) st =
     (case prs_var st of
        None \<Rightarrow> Inl NameError
      | Some prs \<Rightarrow> Inr (st\<lparr>files := (files st)(path \<mapsto> PptxFile prs)\<rparr>))"
| "exec_stmt enc (PrintStmt msg) st =
     (if list_all enc msg then Inr (st\<lparr>stdout := stdout st @ msg @ [10]\<rparr>)
      else Inl UnicodeEncodeError)"

text \<open>
  The small-step semantics. A failed write of \<open>prs.save\<close> raises OSError and leaves the
  path in any condition: untouched, removed, or holding part of a file.
\<close>

inductive script_step :: "(nat \<Rightarrow> bool) \<Rightarrow> script_cfg \<Rightarrow> script_cfg \<Rightarrow> bool" for enc where
  exec_ok: "exec_stmt enc s st = Inr st' \<Longrightarrow> script_step enc (Run (s # ss) st) (Run ss st')"
| exec_raise: "exec_stmt enc s st = Inl e \<Longrightarrow> script_step enc (Run (s # ss) st) (Crashed e st)"
| save_fails: "prs_var st \<noteq> None \<Longrightarrow>
     script_step enc (Run (SaveStmt path # ss) st) (Crashed OSError (st\<lparr>files := (files st)(path := x)\<rparr>))"

text \<open>The first \<open>k\<close> statements, every write succeeding.\<close>

fun exec_n :: "(nat \<Rightarrow> bool) \<Rightarrow> nat \<Rightarrow> stmt list \<Rightarrow> script_state \<Rightarrow> script_cfg" where
  "exec_n enc 0 ss st = Run ss st"
| "exec_n enc (Suc k) [] st = Run [] st"
| "exec_n enc (Suc k) (s # ss) st =
     (case exec_stmt enc s st of Inl e \<Rightarrow> Crashed e st | Inr st' \<Rightarrow> exec_n enc k ss st')"

text \<open>The big-step semantics: the whole statement list.\<close>

definition exec_script :: "(nat \<Rightarrow> bool) \<Rightarrow> stmt list \<Rightarrow> script_state \<Rightarrow> script_cfg" where
  "exec_script enc ss st = exec_n enc (length ss) ss st"

text \<open>The deck after the first \<open>k\<close> builder calls.\<close>

definition deck_after :: "nat \<Rightarrow> presentation" where
  "deck_after k = Presentation\<lparr>slides := calls_spec 256 (default_layouts ! 6) (take k deck_calls)\<rparr>"

text \<open>The state after \<open>prs.save\<close>, and after the final \<open>print\<close>.\<close>

definition script_saved :: "(pystr \<rightharpoonup> file_content) \<Rightarrow> script_state" where
  "script_saved fs = \<lparr>prs_var = Some final_deck, files = fs(output_path \<mapsto> PptxFile final_deck), stdout = []\<rparr>"

definition script_end :: "(pystr \<rightharpoonup> file_content) \<Rightarrow> script_state" where
  "script_end fs = (script_saved fs)\<lparr>stdout := done_msg @ [10]\<rparr>"

text \<open>
  What the program may show at any moment, for the file system \<open>fs\<close> it started on:
  while it runs, \<open>prs\<close> is unbound or a well-formed presentation, the output path holds
  its old content or the complete deck and nothing else changed on disk, and the success
  message has been printed only after the complete deck was saved; it can stop early only
  with the OSError of a failed save, having changed nothing but the output path, or with
  the UnicodeEncodeError of the message, after the complete deck was saved.
\<close>

definition script_safe :: "(pystr \<rightharpoonup> file_content) \<Rightarrow> script_cfg \<Rightarrow> bool" where
  "script_safe fs c = (case c of
     Run ss st \<Rightarrow> pred_option wf_presentation (prs_var st) \<and>
       (files st = fs \<or> files st = fs(output_path \<mapsto> PptxFile final_deck)) \<and>
       (stdout st = [] \<or> stdout st = done_msg @ [10] \<and> files st = fs(output_path \<mapsto> PptxFile final_deck))
   | Crashed e st \<Rightarrow> stdout st = [] \<and>
       (e = OSError \<and> files st = fs(output_path := files st output_path) \<or>
        e = UnicodeEncodeError \<and> files st = fs(output_path \<mapsto> PptxFile final_deck)))"

subsection \<open>Lemmas on the semantics\<close>

inductive_cases script_step_RunE: "script_step enc (Run ss st) c"
inductive_cases script_step_CrashedE [elim!]: "script_step enc (Crashed e st) c"
inductive_cases script_step_NilE [elim!]: "script_step enc (Run [] st) c"

lemma exec_n_Run_step:
  "exec_n enc k ss st = Run (s # ss') st' \<Longrightarrow> exec_stmt enc s st' = Inr st'' \<Longrightarrow>
     exec_n enc (Suc k) ss st = Run ss' st''"
  by (induction enc k ss st rule: exec_n.induct) (auto split: sum.splits)

lemma exec_n_Run_raise:
  "exec_n enc k ss st = Run (s # ss') st' \<Longrightarrow> exec_stmt enc s st' = Inl e \<Longrightarrow>
     exec_n enc (Suc k) ss st = Crashed e st'"
  by (induction enc k ss st rule: exec_n.induct) (auto split: sum.splits)

lemma exec_n_steps: "(script_step enc)\<^sup>*\<^sup>* (Run ss st) (exec_n enc k ss st)"
proof (induction enc k ss st rule: exec_n.induct)
  case (3 enc k s ss st)
  show ?case
  proof (cases "exec_stmt enc s st")
    case (Inl e)
    then show ?thesis by (simp add: script_step.exec_raise r_into_rtranclp)
  next
    case (Inr st')
    then have "script_step enc (Run (s # ss) st) (Run ss st')" by (rule script_step.exec_ok)
    with 3 Inr show ?thesis by (simp add: converse_rtranclp_into_rtranclp)
  qed
qed simp_all

lemma script_steps_exec_n:
  assumes "(script_step enc)\<^sup>*\<^sup>* (Run ss st) c"
  shows "(\<exists>k. c = exec_n enc k ss st) \<or>
         (\<exists>k path ss' st' x. exec_n enc k ss st = Run (SaveStmt path # ss') st' \<and> prs_var st' \<noteq> None \<and>
            c = Crashed OSError (st'\<lparr>files := (files st')(path := x)\<rparr>))"
  using assms
proof (induction rule: rtranclp_induct)
  case base
  have "Run ss st = exec_n enc 0 ss st" by simp
  then show ?case by blast
next
  case (step c c')
  from step.IH show ?case
  proof
    assume "\<exists>k. c = exec_n enc k ss st"
    then obtain k where k: "c = exec_n enc k ss st" by blast
    from step.hyps(2) show ?case
    proof cases
      case (exec_ok s st0 st' ss0)
      with k have "c' = exec_n enc (Suc k) ss st"
        using exec_n_Run_step [of enc k ss st s ss0 st0 st'] by simp
      then show ?thesis by blast
    next
      case (exec_raise s st0 e ss0)
      with k have "c' = exec_n enc (Suc k) ss st"
        using exec_n_Run_raise [of enc k ss st s ss0 st0 e] by simp
      then show ?thesis by blast
    next
      case (save_fails st0 path ss0 x)
      with k show ?thesis by blast
    qed
  next
    assume "\<exists>k path ss' st' x. exec_n enc k ss st = Run (SaveStmt path # ss') st' \<and> prs_var st' \<noteq> None \<and>
              c = Crashed OSError (st'\<lparr>files := (files st')(path := x)\<rparr>)"
    with step.hyps(2) show ?case by blast
  qed
qed

lemma exec_n_Nil [simp]: "exec_n enc k [] st = Run [] st"
  by (cases k) simp_all

lemma exec_n_add:
  "exec_n enc k ss st = Run ss' st' \<Longrightarrow> exec_n enc (k + j) ss st = exec_n enc j ss' st'"
  by (induction enc k ss st rule: exec_n.induct) (auto split: sum.splits)

lemma script_step_final: "\<not> script_step enc (Run [] st) c"
  by blast

subsection \<open>The script's run\<close>

lemma run_calls_append: "run_calls (cs @ cs') prs = bindE (run_calls cs prs) (run_calls cs')"
proof (induction cs arbitrary: prs)
  case (Cons c cs)
  then show ?case
    by (cases c) (simp_all add: bindE_assoc split_def)
qed simp

lemma exec_n_calls:
  "run_calls cs p = Inr p' \<Longrightarrow>
     exec_n enc (length cs) (map CallStmt cs @ rest) (st\<lparr>prs_var := Some p\<rparr>) = Run rest (st\<lparr>prs_var := Some p'\<rparr>)"
proof (induction cs arbitrary: p)
  case (Cons c cs)
  from Cons.prems have "bindE (run_calls [c] p) (run_calls cs) = Inr p'"
    using run_calls_append [of "[c]" cs p] by simp
  then obtain p1 where p1: "run_calls [c] p = Inr p1" and "run_calls cs p1 = Inr p'"
    by (auto simp: bindE_eq_Inr)
  with Cons.IH [of p1] show ?case by (simp add: with_prs_def)
qed simp

lemma length_deck_calls [simp]: "length deck_calls = 14"
  by (simp add: deck_calls_def)

lemma exec_n_script_init:
  "exec_n enc (Suc k) script (script_start fs) =
     exec_n enc k (map CallStmt deck_calls @ [ThankYouStmt, SaveStmt output_path, PrintStmt done_msg])
       ((script_start fs)\<lparr>prs_var := Some Presentation\<rparr>)"
  by (simp add: script_def prs_init_eq)

lemma exec_n_script_calls:
  assumes "j \<le> 14"
  shows "exec_n enc j (map CallStmt deck_calls @ [ThankYouStmt, SaveStmt output_path, PrintStmt done_msg])
           ((script_start fs)\<lparr>prs_var := Some Presentation\<rparr>) =
         Run (map CallStmt (drop j deck_calls) @ [ThankYouStmt, SaveStmt output_path, PrintStmt done_msg])
           ((script_start fs)\<lparr>prs_var := Some (deck_after j)\<rparr>)"
proof -
  have "map CallStmt deck_calls @ [ThankYouStmt, SaveStmt output_path, PrintStmt done_msg] =
      map CallStmt (take j deck_calls) @ (map CallStmt (drop j deck_calls) @
        [ThankYouStmt, SaveStmt output_path, PrintStmt done_msg])"
    by (simp flip: map_append)
  then show ?thesis
    using assms exec_n_calls [OF run_calls_take [of j]] by (simp add: deck_after_def)
qed

lemma exec_n_script_tail:
  "exec_n enc (15 + i) script (script_start fs) =
     exec_n enc i [ThankYouStmt, SaveStmt output_path, PrintStmt done_msg]
       ((script_start fs)\<lparr>prs_var := Some (deck_after 14)\<rparr>)"
proof -
  have "exec_n enc (14 + i) (map CallStmt deck_calls @ [ThankYouStmt, SaveStmt output_path, PrintStmt done_msg])
          ((script_start fs)\<lparr>prs_var := Some Presentation\<rparr>) =
        exec_n enc i [ThankYouStmt, SaveStmt output_path, PrintStmt done_msg]
          ((script_start fs)\<lparr>prs_var := Some (deck_after 14)\<rparr>)"
    using exec_n_add [OF exec_n_script_calls [of 14]] by simp
  then show ?thesis using exec_n_script_init [of enc "14 + i"] by simp
qed

lemma deck_after_14: "deck_after 14 = Presentation\<lparr>slides := calls_spec 256 (default_layouts ! 6) deck_calls\<rparr>"
  by (simp add: deck_after_def deck_calls_def)

lemma exec_n_script_thank_you:
  "exec_n enc (Suc i) [ThankYouStmt, SaveStmt output_path, PrintStmt done_msg]
       ((script_start fs)\<lparr>prs_var := Some (deck_after 14)\<rparr>) =
     exec_n enc i [SaveStmt output_path, PrintStmt done_msg] ((script_start fs)\<lparr>prs_var := Some final_deck\<rparr>)"
  by (simp add: with_prs_def deck_after_14 thank_you_slide_deck)

lemma exec_n_script:
  "exec_n enc k script (script_start fs) =
     (if k = 0 then Run script (script_start fs)
      else if k \<le> 15 then
        Run (map CallStmt (drop (k - 1) deck_calls) @ [ThankYouStmt, SaveStmt output_path, PrintStmt done_msg])
          ((script_start fs)\<lparr>prs_var := Some (deck_after (k - 1))\<rparr>)
      else if k = 16 then Run [SaveStmt output_path, PrintStmt done_msg] ((script_start fs)\<lparr>prs_var := Some final_deck\<rparr>)
      else if k = 17 then Run [PrintStmt done_msg] (script_saved fs)
      else if list_all enc done_msg then Run [] (script_end fs) else Crashed UnicodeEncodeError (script_saved fs))"
proof (cases "k \<le> 15")
  case True
  then show ?thesis
  proof (cases k)
    case (Suc j)
    with True show ?thesis by (simp add: exec_n_script_init exec_n_script_calls)
  qed simp
next
  case False
  then have "\<exists>i. k = 15 + Suc i" by presburger
  then obtain i where k: "k = 15 + Suc i" by blast
  have tail: "exec_n enc k script (script_start fs) =
      exec_n enc i [SaveStmt output_path, PrintStmt done_msg] ((script_start fs)\<lparr>prs_var := Some final_deck\<rparr>)"
    by (simp only: k exec_n_script_tail exec_n_script_thank_you)
  show ?thesis
  proof (cases i)
    case 0
    then show ?thesis using tail by (simp add: k)
  next
    case (Suc i1)
    show ?thesis
    proof (cases i1)
      case 0
      with Suc show ?thesis using tail by (simp add: k script_saved_def script_start_def)
    next
      case (Suc i2)
      with \<open>i = Suc i1\<close> show ?thesis using tail by (simp add: k script_start_def script_saved_def script_end_def)
    qed
  qed
qed

lemma length_script: "length script = 18"
  by (simp add: script_def)

lemma wf_deck_after: "wf_presentation (deck_after j)"
  using wf_calls_spec [OF wf_Presentation, of "default_layouts ! 6" "take j deck_calls"]
  by (simp add: deck_after_def)

lemma calls_ne_save: "map CallStmt xs @ ThankYouStmt # r \<noteq> SaveStmt p # ss"
  by (cases xs) simp_all

lemma script_safe_exec_n: "script_safe fs (exec_n enc k script (script_start fs))"
  unfolding exec_n_script
  by (simp add: script_safe_def script_start_def script_saved_def script_end_def
    wf_deck_after wf_final_deck)

lemma script_save_fails_at:
  assumes "exec_n enc k script (script_start fs) = Run (SaveStmt path # ss') st'"
  shows "path = output_path \<and> st' = (script_start fs)\<lparr>prs_var := Some final_deck\<rparr>"
  using assms unfolding exec_n_script by (simp add: calls_ne_save script_def split: if_splits)

subsection \<open>Properties of the program\<close>

text \<open>
  C13. Safety: in every configuration the program can reach, whatever its writes do,
  \<open>prs\<close> is unbound or well-formed, the disk holds either what it held or the complete
  deck at \<open>EcoSystem_Presentation.pptx\<close>, the success message follows the save, and the
  only exceptions are the OSError of a failed save and the UnicodeEncodeError of the
  message (\<open>script_safe\<close>).
\<close>

theorem script_safety:
  assumes "(script_step enc)\<^sup>*\<^sup>* (Run script (script_start fs)) c"
  shows "script_safe fs c"
  using script_steps_exec_n [OF assms]
proof
  assume "\<exists>k. c = exec_n enc k script (script_start fs)"
  then show ?thesis using script_safe_exec_n by blast
next
  assume "\<exists>k path ss' st' x. exec_n enc k script (script_start fs) = Run (SaveStmt path # ss') st' \<and>
            prs_var st' \<noteq> None \<and> c = Crashed OSError (st'\<lparr>files := (files st')(path := x)\<rparr>)"
  then obtain k path ss' st' x where
    run: "exec_n enc k script (script_start fs) = Run (SaveStmt path # ss') st'" and
    c: "c = Crashed OSError (st'\<lparr>files := (files st')(path := x)\<rparr>)" by blast
  from script_save_fails_at [OF run] c show ?thesis
    by (simp add: script_safe_def script_start_def)
qed

theorem script_safety_witness:
  "(script_step (\<lambda>_. True))\<^sup>*\<^sup>* (Run script (script_start Map.empty)) (Run [] (script_end Map.empty)) \<and>
   script_safe Map.empty (Run [] (script_end Map.empty))"
proof -
  have r: "(script_step (\<lambda>_. True))\<^sup>*\<^sup>* (Run script (script_start Map.empty)) (Run [] (script_end Map.empty))"
    using exec_n_steps [of "\<lambda>_. True" script "script_start Map.empty" 18]
    by (simp add: exec_n_script list_all_iff)
  show ?thesis using r script_safety [OF r] by simp
qed

text \<open>
  C14. Liveness: on a console that can encode the message, the program can run to its
  end, where the complete deck is saved at \<open>EcoSystem_Presentation.pptx\<close>, the message
  is printed once, and no step is left.
\<close>

theorem script_completes:
  assumes "list_all enc done_msg"
  shows "(script_step enc)\<^sup>*\<^sup>* (Run script (script_start fs)) (Run [] (script_end fs)) \<and>
         files (script_end fs) output_path = Some (PptxFile final_deck) \<and>
         stdout (script_end fs) = done_msg @ [10] \<and>
         \<not> (\<exists>c. script_step enc (Run [] (script_end fs)) c)"
  using assms exec_n_steps [of enc script "script_start fs" 18]
  by (simp add: exec_n_script script_end_def script_saved_def script_step_final)

theorem script_completes_witness:
  "list_all (\<lambda>_. True) done_msg \<and>
   (script_step (\<lambda>_. True))\<^sup>*\<^sup>* (Run script (script_start Map.empty)) (Run [] (script_end Map.empty)) \<and>
   files (script_end Map.empty) output_path = Some (PptxFile final_deck) \<and>
   stdout (script_end Map.empty) = done_msg @ [10] \<and>
   \<not> (\<exists>c. script_step (\<lambda>_. True) (Run [] (script_end Map.empty)) c)"
  using script_completes [of "\<lambda>_. True" Map.empty] by (simp add: list_all_iff)

text \<open>
  C15. The outcome of the program when every write succeeds: it completes with the deck
  saved and the message printed, or, on a console that cannot encode the message, it
  ends with UnicodeEncodeError after the deck was saved.
\<close>

theorem script_outcome:
  "exec_script enc script (script_start fs) =
     (if list_all enc done_msg then Run [] (script_end fs) else Crashed UnicodeEncodeError (script_saved fs))"
  by (simp add: exec_script_def length_script exec_n_script)

text \<open>
  C16. On a console whose encoding has no U+2705 (the check mark the message starts
  with), the program saves the complete deck and then fails at \<open>print\<close> with
  UnicodeEncodeError, printing nothing.
\<close>

theorem script_print_unencodable:
  assumes "\<not> enc 0x2705"
  shows "(script_step enc)\<^sup>*\<^sup>* (Run script (script_start fs)) (Crashed UnicodeEncodeError (script_saved fs)) \<and>
         files (script_saved fs) output_path = Some (PptxFile final_deck) \<and> stdout (script_saved fs) = []"
  using assms exec_n_steps [of enc script "script_start fs" 18]
  by (simp add: exec_n_script script_saved_def done_msg_def)

theorem script_print_unencodable_witness:
  "\<not> (\<lambda>c::nat. c < 256) 0x2705 \<and>
   (script_step (\<lambda>c. c < 256))\<^sup>*\<^sup>* (Run script (script_start Map.empty))
     (Crashed UnicodeEncodeError (script_saved Map.empty)) \<and>
   files (script_saved Map.empty) output_path = Some (PptxFile final_deck) \<and> stdout (script_saved Map.empty) = []"
  using script_print_unencodable [of "\<lambda>c. c < 256" Map.empty] by simp


end
