(* ===== verification/Spec2Isabelle.thy ===== *)
theory Spec2Isabelle
  imports Script
begin

text \<open>
  \<^bold>\<open>A verification library for \<open>src/generate_ppt.py\<close> of EcoStemm.\<close>

  \<^bold>\<open>The program.\<close> One Python script drives python-pptx to write a fixed fifteen-slide
  deck. It creates a presentation and sets its size (lines 7--9); two helpers build a
  slide each on the blank layout 6: \<open>add_title_slide\<close> (lines 11--30, two centred
  text boxes) and \<open>add_content_slide\<close> (lines 32--54, a title box and a word-wrapped
  content box filled by a loop over the items, lines 47--52); fourteen calls of the
  helpers with literal strings make slides 1--14 (lines 56--225); slide 15 is built
  inline with three text boxes (lines 228--251); the deck is saved and a message printed
  (lines 253--255). The parts interact only through the presentation object, which every
  statement updates through references to a slide, a shape or a paragraph.

  \<^bold>\<open>The theories.\<close>
  \<^item> \<open>Prelude\<close>: Python exceptions as \<open>py_error\<close> values and \<open>bindE\<close>, which sequences
    statements and stops at the first exception; strings as code-point lists
    (\<open>py_str\<close>); list indexing (\<open>py_position\<close>); \<open>int()\<close> of a float (\<open>py_int\<close>);
    \<open>str.split\<close>/\<open>str.join\<close> on one separator with both round trips.
  \<^item> \<open>Units\<close>: \<open>Inches\<close>, \<open>Pt\<close>, \<open>centipoints\<close>, \<open>RGBColor\<close> (ValueError outside
    0..255), \<open>PP_ALIGN\<close>.
  \<^item> \<open>Text\<close>: the text frame, its paragraphs and their default run properties as
    records; \<open>text_ok\<close>, the run text python-pptx can store (control characters below
    U+0020 are escaped, everything else must be an XML 1.0 \<open>Char\<close>, \<open>xml_char\<close>, or lxml
    raises ValueError); the setters the script calls (\<open>TextFrame.text\<close> and
    \<open>_Paragraph.text\<close>, which raise ValueError on other text, \<open>add_paragraph\<close>,
    \<open>word_wrap\<close>, \<open>font.size\<close>, \<open>font.bold\<close>, \<open>font.color.rgb\<close>, \<open>alignment\<close>,
    \<open>space_before\<close>, \<open>level\<close>), each with the range check of its XML attribute type;
    the invariant \<open>wf_frame\<close>.
  \<^item> \<open>Slides\<close>: the presentation, slide, shape and layout records; \<open>Presentation()\<close>
    on the default template; \<open>slide_width\<close>/\<open>slide_height\<close>, \<open>slide_layouts[i]\<close>,
    \<open>slides.add_slide\<close> (fresh slide id, cloned placeholders), \<open>shapes.add_textbox\<close>
    (fresh shape id, name \<open>TextBox n\<close>), \<open>paragraphs[i]\<close>; assignments through references
    as \<open>map_frame\<close>, \<open>frame_assign\<close> and \<open>par_update\<close>; the invariant
    \<open>wf_presentation\<close> (distinct slide ids from 256, distinct shape ids from 2 per
    slide, well-formed frames).
  \<^item> \<open>Builders\<close>: \<open>add_title_slide\<close>, \<open>add_content_slide\<close> and the loop
    \<open>add_content_items\<close>, statement by statement; their abstract specification
    (\<open>title_slide_spec\<close>, \<open>content_slide_spec\<close>: the slide each appends) and the
    characterisations \<open>add_title_slide_eq\<close>, \<open>add_content_slide_eq\<close>: once layout 6
    exists, ValueError if a string is text lxml rejects, the specified slide otherwise;
    \<open>inside_slide\<close>; claims C1--C8, C18.
  \<^item> \<open>Deck\<close>: the script: \<open>prs_init\<close>, the fourteen calls as \<open>deck_call\<close> values with
    the source's literals, \<open>run_calls\<close>, \<open>thank_you_slide\<close>, \<open>generate_ppt\<close>; the
    specification \<open>final_deck\<close>, \<open>deck_calls_text_ok\<close> (every literal is valid run text)
    and \<open>generate_ppt_eq\<close>: the script raises nothing and builds exactly
    \<open>final_deck\<close>; claims C9--C12, C17.
  \<^item> \<open>Script\<close>: the module run as a program. Its top-level statements
    (\<open>stmt\<close>: set-up, the calls, slide 15, \<open>prs.save\<close> at line 254, \<open>print\<close> at
    line 255) act on the observable state \<open>script_state\<close> (the global \<open>prs\<close>, the
    file system, standard output) through \<open>exec_stmt\<close>; \<open>script_step\<close> is the
    small-step semantics, in which an uncaught exception ends the program and a save may
    fail with OSError, and \<open>exec_script\<close> the big-step one; claims C13--C16.
  \<^item> this theory: this documentation.

  The python-pptx part (Units, Text, Slides) is modelled from the library's documented
  behaviour, which is not in the repository; everything the script itself does is
  translated from \<open>src/generate_ppt.py\<close>.

  \<^bold>\<open>What is proved.\<close> For the builders, on any presentation and any strings: each
  refines its specification when its strings are valid run text (C1, C2); the content box
  starts with an empty paragraph before one formatted paragraph per item (C3); the item
  loop appends exactly those paragraphs and touches no other frame (C4); once layout 6
  exists a builder raises ValueError exactly when a string is invalid run text and
  nothing else ever (C5); with at most six layouts both raise IndexError (C6); title and
  subtitle read back unchanged through \<open>TextFrame.text\<close> (C7); a multi-line title is
  formatted on its first line only (C8); on any slide of at least 10 by 7.5 inches their
  boxes lie inside it (C18). For the script's parts: a sequence of valid calls refines
  the sequence of specified slides (C9); slide 15 is exactly \<open>thank_you_spec\<close> (C10);
  the first call and slide 15 raise IndexError without layout 6 (C11); a sequence of
  calls raises only IndexError (too few layouts) or ValueError (an invalid string) (C12);
  permuting valid calls permutes the new slides and keeps their ids (C17). For the
  program: every reachable configuration is safe, whatever the writes and the console
  do: \<open>prs\<close> well-formed, the disk unchanged or holding the complete deck, the message
  printed only after the save, no exception but a failed save's OSError or the message's
  UnicodeEncodeError (C13); on a console that encodes the message it can run to its end
  (C14); its outcome when writes succeed is exactly the saved \<open>final_deck\<close> and the
  printed message, or UnicodeEncodeError after the save (C15); on a console without
  U+2705 it saves the deck and then fails at \<open>print\<close> (C16).
  Findings: each content box starts with an empty paragraph before its items (C3); a
  heading with a line feed is formatted on its first line only (C8); heading boxes do not
  wrap, so a long heading grows its box sideways instead of breaking; the builders pass
  their strings to lxml unchecked, so a lone surrogate or U+FFFE/U+FFFF in an argument
  raises ValueError, which the script's own literals never trigger (C5,
  \<open>deck_calls_text_ok\<close>); on a console whose encoding lacks U+2705 the program ends
  with UnicodeEncodeError after saving (C16).

  \<^bold>\<open>Choices.\<close> No loop of the script can run forever (the only loop runs over a finite
  list), so no fuel is used; every function is total and executable. Python's float
  literals of the script are taken as the decimals they denote: for each of them the
  float product and the exact product truncate to the same EMU count. Python ints are
  unbounded: \<open>int\<close> and \<open>nat\<close>, no machine words. A statement that raises leaves the
  presentation unchanged in the model, while python-pptx may have changed part of it;
  the exception ends the program, so the difference is never observed.

  The environment enters the model at two points only: \<open>enc\<close>, the code points the
  console's encoding can represent, and the choice of a failed write at \<open>prs.save\<close>.

  \<^bold>\<open>Not modelled.\<close> The bytes \<open>prs.save\<close> writes: a saved file is modelled as the
  presentation it serialises (\<open>PptxFile\<close>), and the XML and package writer is not
  modelled; the \<open>_xHHHH_\<close> form python-pptx writes for escaped control characters (the
  model keeps the character); the overflow fallback of \<open>SlideIdList._next_id\<close> past id
  2147483647; assignments of \<open>None\<close> to the setters, which the script never makes; the
  geometry placeholders inherit from their layout; the operations of python-pptx the
  script never calls, which is why the three python-pptx components are modelled only in
  part. The library is not in the repository, so a model of its internals beyond its
  documented behaviour (the XML writer, the id overflow fallback) could not be checked
  against the code it claims to translate.
\<close>

end
